theory Spec2Isabelle
  imports Main
begin

section \<open>Strings and numbers of the host language\<close>

text \<open>
  The source (src/src/pumpPortal.ts) is TypeScript. Its strings are modelled as
  \<^typ>\<open>string\<close>; \<open>s.includes(p)\<close> is the substring test and \<open>s.substring(0, 8)\<close>
  is \<^term>\<open>take 8 s\<close>.
\<close>

fun starts_with :: "string \<Rightarrow> string \<Rightarrow> bool" where
  "starts_with s [] = True"
| "starts_with [] (p # ps) = False"
| "starts_with (c # cs) (p # ps) = (c = p \<and> starts_with cs ps)"

fun includes_str :: "string \<Rightarrow> string \<Rightarrow> bool" where
  "includes_str [] p = (p = [])"
| "includes_str (c # cs) p = (starts_with (c # cs) p \<or> includes_str cs p)"

definition digit_char :: "nat \<Rightarrow> char" where
  "digit_char d = ''0123456789'' ! d"

fun show_nat :: "nat \<Rightarrow> string" where
  "show_nat n = (if n < 10 then [digit_char n] else show_nat (n div 10) @ [digit_char (n mod 10)])"

declare show_nat.simps [simp del]

definition show_int :: "int \<Rightarrow> string" where
  "show_int i = (if i < 0 then CHR ''-'' # show_nat (nat (- i)) else show_nat (nat i))"

text \<open>
  A TypeScript \<open>number\<close> is an IEEE-754 binary64 value. A finite one is kept exactly,
  as the pair \<open>Finite m e\<close> standing for \<open>m * 2 ^ e\<close> (the sign is the sign of \<open>m\<close>;
  the sign of a zero is not kept, no operation below reads it).
\<close>

datatype js_number = Finite int int | NaN | PosInf | NegInf

fun bit_length :: "nat \<Rightarrow> nat" where
  "bit_length n = (if n = 0 then 0 else Suc (bit_length (n div 2)))"

declare bit_length.simps [simp del]

text \<open>\<open>a div 2 ^ k\<close>, rounded to the nearest integer, a tie to the even one.\<close>

definition round_half_even :: "nat \<Rightarrow> nat \<Rightarrow> nat" where
  "round_half_even a k =
     (let q = a div 2 ^ k; r = a mod 2 ^ k
      in if 2 ^ k < 2 * r \<or> (2 * r = 2 ^ k \<and> odd q) then q + 1 else q)"

text \<open>
  The binary64 value nearest to the exact \<open>m * 2 ^ e\<close>: 53 significant bits, no
  exponent under \<open>-1074\<close> (subnormals), overflow to an infinity from \<open>2 ^ 1024\<close> on.
\<close>

definition to_double :: "int \<Rightarrow> int \<Rightarrow> js_number" where
  "to_double m e =
     (let a = nat \<bar>m\<bar>;
          k = nat (max (int (bit_length a) - 53) (- 1074 - e));
          q = round_half_even a k;
          e' = e + int k
      in if 0 \<le> e' \<and> 2 ^ 1024 \<le> q * 2 ^ nat e' then (if m < 0 then NegInf else PosInf)
         else Finite (if m < 0 then - int q else int q) e')"

fun js_sign :: "js_number \<Rightarrow> int" where
  "js_sign (Finite m e) = sgn m"
| "js_sign NaN = 0"
| "js_sign PosInf = 1"
| "js_sign NegInf = - 1"

text \<open>The operator \<open>*\<close> on numbers.\<close>

fun js_mul :: "js_number \<Rightarrow> js_number \<Rightarrow> js_number" where
  "js_mul NaN y = NaN"
| "js_mul x NaN = NaN"
| "js_mul (Finite m1 e1) (Finite m2 e2) = to_double (m1 * m2) (e1 + e2)"
| "js_mul x y =
     (let s = js_sign x * js_sign y
      in if s = 0 then NaN else if s < 0 then NegInf else PosInf)"

text \<open>\<open>Math.floor\<close>.\<close>

fun js_floor :: "js_number \<Rightarrow> js_number" where
  "js_floor (Finite m e) = (if 0 \<le> e then Finite m e else Finite (m div 2 ^ nat (- e)) 0)"
| "js_floor x = x"

text \<open>The integer a number is, when it is one.\<close>

fun integer_of :: "js_number \<Rightarrow> int option" where
  "integer_of (Finite m e) =
     (if 0 \<le> e then Some (m * 2 ^ nat e)
      else if m mod 2 ^ nat (- e) = 0 then Some (m div 2 ^ nat (- e))
      else None)"
| "integer_of x = None"

text \<open>
  \<open>Number.prototype.toString()\<close> prints the shortest digits that read back as the same
  binary64 value. For an integer of magnitude under \<open>2 ^ 53\<close> (a safe integer) these are
  its decimal digits. From \<open>2 ^ 53\<close> on they need not be (the digits are cut and filled
  with zeros, then exponent notation from \<open>10 ^ 21\<close> on), and a fraction has digits of
  its own: all these strings are the runtime's, the parameter \<open>shortest\<close>.
\<close>

definition number_toString :: "(js_number \<Rightarrow> string) \<Rightarrow> js_number \<Rightarrow> string" where
  "number_toString shortest x =
     (case x of
        NaN \<Rightarrow> ''NaN''
      | PosInf \<Rightarrow> ''Infinity''
      | NegInf \<Rightarrow> ''-Infinity''
      | Finite m e \<Rightarrow>
          (case integer_of x of
             Some n \<Rightarrow> if \<bar>n\<bar> < 2 ^ 53 then show_int n else shortest x
           | None \<Rightarrow> shortest x))"

text \<open>The literal \<open>1e9\<close>.\<close>

definition js_1e9 :: js_number where
  "js_1e9 = Finite 1000000000 0"


section \<open>Data of the trading helper\<close>

text \<open>
  The logging sink (interface \<open>Logger\<close>, lines 11-16) has four severities. The module
  holds one sink, swappable through \<open>setLogger\<close>; the model records every call made to
  it, in order, whatever sink is installed.
\<close>

datatype level = Debug | Info | Warn | Error

text \<open>
  The credential: a \<open>Keypair\<close>. Only \<open>wallet.publicKey.toBase58()\<close> is read by this
  code; the secret part is used by the signing primitive alone.
\<close>

record wallet =
  publicKey :: string
  secretKey :: string

text \<open>The object \<open>requestData\<close> of the buy operation (lines 56-65).\<close>

record request_data =
  rq_publicKey :: string
  rq_action :: string
  rq_mint :: string
  rq_amount :: string
  rq_denominatedInSol :: string
  rq_slippage :: js_number
  rq_priorityFee :: js_number
  rq_pool :: string

text \<open>
  What is posted: buy posts the object, sell posts the string \<open>params.toString()\<close>.
\<close>

datatype post_body = ObjectBody request_data | StringBody string

record post_config =
  content_type :: string
  responseType :: string
  timeout_ms :: nat

record send_options =
  skipPreflight :: bool
  maxRetries :: nat

record latest_blockhash =
  blockhash :: string
  lastValidBlockHeight :: nat

record confirm_strategy =
  cs_signature :: string
  cs_blockhash :: string
  cs_lastValidBlockHeight :: nat

text \<open>
  A thrown value is typed \<open>any\<close> in the \<open>catch\<close> clauses. It is \<open>undefined\<close>, or
  \<open>null\<close>, or a value whose properties can be read (\<open>Thrown_object\<close>). Of the last
  kind the \<open>catch\<close> blocks read four things, the fields of the record \<open>thrown\<close>:
  \<^item> \<open>error.response\<close> (set by the HTTP client on an error status) with its \<open>status\<close> and
  \<open>data\<close>; the \<open>data\<close> is falsy (\<open>NoData\<close>), or \<open>Buffer.from(data).toString('utf-8')\<close>
  gives a text (\<open>DataText\<close>), or \<open>Buffer.from\<close> throws on it (\<open>DataOpaque\<close>, with the
  string a template literal makes of it);
  \<^item> \<open>error.message\<close>: absent, or a string (truthy unless empty), or another value,
  truthy or not, with the string a template literal makes of it; only a string has
  the method \<open>includes\<close>;
  \<^item> \<open>error.logs\<close>: not an array (\<open>None\<close>), or an array whose entries are strings
  (\<open>Line\<close>) or values without a method \<open>includes\<close> (\<open>NoLine\<close>);
  \<^item> \<open>error.toString()\<close>: the string it returns, or \<open>None\<close> when the value has no
  method \<open>toString\<close> (an object without a prototype).
\<close>

datatype error_data = NoData | DataText string | DataOpaque string

record http_error =
  http_status :: int
  http_data :: error_data

datatype js_message = No_message | String_message string | Other_message bool string

datatype log_entry = Line string | NoLine

record thrown =
  err_response :: "http_error option"
  err_message :: js_message
  err_logs :: "log_entry list option"
  err_toString :: "string option"

datatype js_thrown = Thrown_undefined | Thrown_null | Thrown_object thrown

text \<open>
  The \<open>TypeError\<close> that the runtime throws on a property read of \<open>undefined\<close> or
  \<open>null\<close> and on a call of something that is not a function, an \<open>Error\<close> object with no
  response and no logs. Its message \<open>text\<close> is worded as Node's engine words it.
\<close>

definition type_error :: "string \<Rightarrow> js_thrown" where
  "type_error text =
     Thrown_object
       \<lparr>err_response = None, err_message = String_message text, err_logs = None,
        err_toString = Some (''TypeError: '' @ text)\<rparr>"

text \<open>
  The trace of one invocation: the calls to the logging sink and to the external
  collaborators, in the order the code makes them. \<open>LogWith\<close> is the call
  \<open>logger.debug(message, requestData)\<close> of line 67.
\<close>

datatype 'tx event =
    Log level string
  | LogWith level string request_data
  | HttpPost string post_body post_config
  | Deserialize string
  | SignTx 'tx wallet
  | SendRawTransaction string send_options
  | GetLatestBlockhash string
  | ConfirmTransaction confirm_strategy string

text \<open>
  The external collaborators. Each call returns (\<open>Inr\<close>) or throws (\<open>Inl\<close>); none is
  part of this repository, so each is a parameter:
  \<^item> \<open>newPublicKey s\<close> is \<open>new PublicKey(s).toBase58()\<close>;
  \<open>axios_post\<close> returns \<open>response.data\<close>, \<open>None\<close> when it is missing;
  \<^item> \<open>deserializeTx\<close>, \<open>signTx\<close>, \<open>serializeTx\<close> are
  \<open>VersionedTransaction.deserialize\<close>, \<open>transaction.sign([wallet])\<close> (which updates
  the transaction) and \<open>transaction.serialize()\<close>; the transaction type \<open>'tx\<close> is opaque;
  \<^item> \<open>confirmTransaction\<close> returns \<open>confirmation.value.err\<close>: \<open>None\<close> for \<open>null\<close>,
  else the on-chain error as a template literal prints it (a \<open>TransactionError\<close> is an
  object or a variant name, so it is truthy);
  \<^item> \<open>shortestDigits\<close> is the parameter of \<^const>\<open>number_toString\<close> and
  \<open>paramsToString\<close> is \<open>URLSearchParams.toString()\<close> on the appended pairs.
\<close>

record 'tx env =
  newPublicKey :: "string \<Rightarrow> js_thrown + string"
  axios_post :: "string \<Rightarrow> post_body \<Rightarrow> post_config \<Rightarrow> js_thrown + string option"
  deserializeTx :: "string \<Rightarrow> js_thrown + 'tx"
  signTx :: "'tx \<Rightarrow> wallet \<Rightarrow> js_thrown + 'tx"
  serializeTx :: "'tx \<Rightarrow> js_thrown + string"
  sendRawTransaction :: "string \<Rightarrow> send_options \<Rightarrow> js_thrown + string"
  getLatestBlockhash :: "string \<Rightarrow> js_thrown + latest_blockhash"
  confirmTransaction :: "confirm_strategy \<Rightarrow> string \<Rightarrow> js_thrown + string option"
  shortestDigits :: "js_number \<Rightarrow> string"
  paramsToString :: "(string \<times> string) list \<Rightarrow> string"

text \<open>
  The outcome of an asynchronous operation: the trace, and the value the promise
  resolves to (\<open>Inr\<close>; \<open>None\<close> is \<open>null\<close>) or the value it rejects with (\<open>Inl\<close>).
\<close>

type_synonym 'tx outcome = "'tx event list \<times> (js_thrown + string option)"

section \<open>The operations\<close>

definition PUMP_PORTAL_API :: string where
  "PUMP_PORTAL_API = ''https://pumpportal.fun/api/trade-local''"

definition axios_config :: post_config where
  "axios_config =
     \<lparr>content_type = ''application/x-www-form-urlencoded'',
      responseType = ''arraybuffer'',
      timeout_ms = 10000\<rparr>"

definition send_opts :: send_options where
  "send_opts = \<lparr>skipPreflight = False, maxRetries = 3\<rparr>"

text \<open>A template literal prints an absent \<open>error.message\<close> as \<open>undefined\<close>.\<close>

definition message_text :: "thrown \<Rightarrow> string" where
  "message_text error =
     (case err_message error of
        No_message \<Rightarrow> ''undefined''
      | String_message m \<Rightarrow> m
      | Other_message truthy shown \<Rightarrow> shown)"

text \<open>
  The inner \<open>catch\<close> of the address validation (lines 49-52 and 187-190, the same text
  in both operations). It reads \<open>error.message\<close>: on \<open>undefined\<close> or \<open>null\<close> that read
  throws, inside the outer \<open>try\<close> block.
\<close>

definition invalid_address :: "string \<Rightarrow> js_thrown \<Rightarrow> 'tx outcome" where
  "invalid_address tokenMint e =
     (case e of
        Thrown_undefined \<Rightarrow>
          ([], Inl (type_error ''Cannot read properties of undefined (reading 'message')''))
      | Thrown_null \<Rightarrow>
          ([], Inl (type_error ''Cannot read properties of null (reading 'message')''))
      | Thrown_object error \<Rightarrow>
          ([Log Error (''Invalid token mint address: '' @ tokenMint @ '' - '' @
              message_text error)],
           Inr None))"

text \<open>
  Lines 86-115 of buy and 221-250 of sell are the same text but for the word
  \<open>BUY\<close> or \<open>SELL\<close> in the last message; they are modelled once, with that word as
  \<open>action\<close>. \<open>data\<close> is the non-empty \<open>response.data\<close>.
\<close>

definition sign_submit_confirm ::
  "'tx env \<Rightarrow> wallet \<Rightarrow> string \<Rightarrow> string \<Rightarrow> 'tx outcome" where
  "sign_submit_confirm env wallet action data =
     (let t1 = [Log Info (''Received transaction from PumpPortal API ('' @
                  show_nat (length data) @ '' bytes)''),
                Deserialize data]
      in case deserializeTx env data of
           Inl error \<Rightarrow> (t1, Inl error)
         | Inr transaction \<Rightarrow>
      (let t2 = t1 @ [SignTx transaction wallet]
       in case signTx env transaction wallet of
            Inl error \<Rightarrow> (t2, Inl error)
          | Inr signed \<Rightarrow>
      (let t3 = t2 @ [Log Info ''Sending PumpPortal transaction...'']
       in case serializeTx env signed of
            Inl error \<Rightarrow> (t3, Inl error)
          | Inr raw \<Rightarrow>
      (let t4 = t3 @ [SendRawTransaction raw send_opts]
       in case sendRawTransaction env raw send_opts of
            Inl error \<Rightarrow> (t4, Inl error)
          | Inr signature \<Rightarrow>
      (let t5 = t4 @ [Log Info (''Transaction sent: '' @ signature),
                      GetLatestBlockhash ''finalized'']
       in case getLatestBlockhash env ''finalized'' of
            Inl error \<Rightarrow> (t5, Inl error)
          | Inr latestBlockhash \<Rightarrow>
      (let strategy = \<lparr>cs_signature = signature,
                        cs_blockhash = blockhash latestBlockhash,
                        cs_lastValidBlockHeight = lastValidBlockHeight latestBlockhash\<rparr>;
           t6 = t5 @ [ConfirmTransaction strategy ''confirmed'']
       in case confirmTransaction env strategy ''confirmed'' of
            Inl error \<Rightarrow> (t6, Inl error)
          | Inr (Some err) \<Rightarrow>
              (t6 @ [Log Error (''Transaction failed: '' @ err)], Inr None)
          | Inr None \<Rightarrow>
              (t6 @ [Log Info (action @ '' SUCCESSFUL via PumpPortal: '' @ signature),
                     Log Info (''Transaction: https://solscan.io/tx/'' @ signature)],
               Inr (Some signature))))))))"

text \<open>Lines 81-84 and 216-219, then the shared part.\<close>

definition on_response ::
  "'tx env \<Rightarrow> wallet \<Rightarrow> string \<Rightarrow> string option \<Rightarrow> 'tx outcome" where
  "on_response env wallet action response_data =
     (case response_data of
        None \<Rightarrow> ([Log Error ''Empty response from PumpPortal API''], Inr None)
      | Some data \<Rightarrow>
          if length data = 0 then ([Log Error ''Empty response from PumpPortal API''], Inr None)
          else sign_submit_confirm env wallet action data)"

text \<open>The object built at lines 54-65.\<close>

definition buy_requestData ::
  "'tx env \<Rightarrow> wallet \<Rightarrow> string \<Rightarrow> js_number \<Rightarrow> js_number \<Rightarrow> js_number \<Rightarrow> request_data" where
  "buy_requestData env wallet validTokenMint solAmount slippagePercent priorityFee =
     (let amountInLamports = js_floor (js_mul solAmount js_1e9)
      in \<lparr>rq_publicKey = publicKey wallet,
          rq_action = ''buy'',
          rq_mint = validTokenMint,
          rq_amount = number_toString (shortestDigits env) amountInLamports,
          rq_denominatedInSol = ''true'',
          rq_slippage = slippagePercent,
          rq_priorityFee = priorityFee,
          rq_pool = ''pump''\<rparr>)"

text \<open>The \<open>try\<close> block of \<open>buyViaPumpPortal\<close> (lines 42-115).\<close>

definition buy_try ::
  "'tx env \<Rightarrow> wallet \<Rightarrow> string \<Rightarrow> js_number \<Rightarrow> js_number \<Rightarrow> js_number \<Rightarrow> 'tx outcome" where
  "buy_try env wallet tokenMint solAmount slippagePercent priorityFee =
     (let t0 = [Log Info (''Using PumpPortal API to buy '' @
                  number_toString (shortestDigits env) solAmount @
                  '' SOL worth of '' @ take 8 tokenMint @ ''...'')]
      in case newPublicKey env tokenMint of
           Inl error \<Rightarrow>
             (case invalid_address tokenMint error of (t, r) \<Rightarrow> (t0 @ t, r))
         | Inr validTokenMint \<Rightarrow>
      (let requestData =
             buy_requestData env wallet validTokenMint solAmount slippagePercent priorityFee;
           t1 = t0 @ [LogWith Debug ''PumpPortal API request:'' requestData,
                      HttpPost PUMP_PORTAL_API (ObjectBody requestData) axios_config]
       in case axios_post env PUMP_PORTAL_API (ObjectBody requestData) axios_config of
            Inl error \<Rightarrow> (t1, Inl error)
          | Inr response_data \<Rightarrow>
              (case on_response env wallet ''BUY'' response_data of
                 (t, r) \<Rightarrow> (t1 @ t, r))))"

text \<open>The pairs appended to \<open>params\<close> at lines 192-200.\<close>

definition sell_params ::
  "'tx env \<Rightarrow> wallet \<Rightarrow> string \<Rightarrow> js_number \<Rightarrow> js_number \<Rightarrow> js_number \<Rightarrow>
     (string \<times> string) list" where
  "sell_params env wallet validTokenMint tokenAmount slippagePercent priorityFee =
     [(''publicKey'', publicKey wallet),
      (''action'', ''sell''),
      (''mint'', validTokenMint),
      (''amount'', number_toString (shortestDigits env) tokenAmount),
      (''denominatedInSol'', ''false''),
      (''slippage'', number_toString (shortestDigits env) slippagePercent),
      (''priorityFee'', number_toString (shortestDigits env) priorityFee),
      (''pool'', ''pump'')]"

text \<open>The \<open>try\<close> block of \<open>sellViaPumpPortal\<close> (lines 180-250).\<close>

definition sell_try ::
  "'tx env \<Rightarrow> wallet \<Rightarrow> string \<Rightarrow> js_number \<Rightarrow> js_number \<Rightarrow> js_number \<Rightarrow> 'tx outcome" where
  "sell_try env wallet tokenMint tokenAmount slippagePercent priorityFee =
     (let t0 = [Log Info (''Using PumpPortal API to sell '' @
                  number_toString (shortestDigits env) tokenAmount @
                  '' tokens of '' @ take 8 tokenMint @ ''...'')]
      in case newPublicKey env tokenMint of
           Inl error \<Rightarrow>
             (case invalid_address tokenMint error of (t, r) \<Rightarrow> (t0 @ t, r))
         | Inr validTokenMint \<Rightarrow>
      (let body = paramsToString env
             (sell_params env wallet validTokenMint tokenAmount slippagePercent priorityFee);
           t1 = t0 @ [Log Debug (''PumpPortal API request: '' @ body),
                      HttpPost PUMP_PORTAL_API (StringBody body) axios_config]
       in case axios_post env PUMP_PORTAL_API (StringBody body) axios_config of
            Inl error \<Rightarrow> (t1, Inl error)
          | Inr response_data \<Rightarrow>
              (case on_response env wallet ''SELL'' response_data of
                 (t, r) \<Rightarrow> (t1 @ t, r))))"

section \<open>The error classifier\<close>

definition migrated_warning :: "string \<Rightarrow> string" where
  "migrated_warning tokenMint =
     ''Token '' @ take 8 tokenMint @
     ''... has migrated or does not exist on pump.fun bonding curve''"

definition invalid_request_warning :: "string \<Rightarrow> string" where
  "invalid_request_warning tokenMint =
     ''Invalid token or request parameters for '' @ take 8 tokenMint @ ''...''"

definition mentions_migration :: "string \<Rightarrow> bool" where
  "mentions_migration errorText =
     (includes_str errorText ''bonding curve'' \<or> includes_str errorText ''migrated'' \<or>
      includes_str errorText ''does not exist'')"

text \<open>Lines 135-137 and 270-272.\<close>

definition status_400 :: "string \<Rightarrow> int \<Rightarrow> 'tx event list" where
  "status_400 tokenMint status =
     (if status = 400 then [Log Warn (invalid_request_warning tokenMint)] else [])"

text \<open>
  The branch \<open>if (error.response)\<close> (lines 117-137 and 252-272, the same text in both
  operations). The \<open>return null\<close> of line 128 ends the handler: nothing is logged after
  the migration warning.
\<close>

definition on_http_error :: "string \<Rightarrow> http_error \<Rightarrow> 'tx event list" where
  "on_http_error tokenMint response =
     (let status = http_status response
      in Log Error (''PumpPortal API error: '' @ show_int status) #
         (case http_data response of
            NoData \<Rightarrow> status_400 tokenMint status
          | DataText errorText \<Rightarrow>
              Log Error (''Error details: '' @ errorText) #
              (if mentions_migration errorText
               then [Log Warn (migrated_warning tokenMint)]
               else status_400 tokenMint status)
          | DataOpaque shown \<Rightarrow>
              Log Error (''Error response: '' @ shown) # status_400 tokenMint status))"

definition mentions_exhaustion :: "string \<Rightarrow> bool" where
  "mentions_exhaustion s =
     (includes_str s ''NotEnoughTokensToBuy'' \<or> includes_str s ''Not enough tokens'')"

text \<open>Lines 142-147.\<close>

definition bonding_curve_diagnostic :: "string \<Rightarrow> 'tx event list" where
  "bonding_curve_diagnostic tokenMint =
     [Log Error ''BONDING CURVE ERROR'',
      Log Error (''Token '' @ take 8 tokenMint @ ''... bonding curve has insufficient tokens''),
      Log Error ''Possible reasons:'',
      Log Error ''  1. Token bonding curve is almost empty (most tokens sold)'',
      Log Error ''  2. Token has migrated/launched (bonding curve completed)'',
      Log Error ''  3. Amount requested is too large for available tokens'']"

text \<open>The body of the \<open>forEach\<close> of lines 152-160.\<close>

definition log_line :: "string \<Rightarrow> 'tx event" where
  "log_line l =
     (if mentions_exhaustion l then Log Error (''  '' @ l)
      else if includes_str l ''Left:'' \<or> includes_str l ''Right:'' then Log Error (''  '' @ l)
      else Log Debug (''  '' @ l))"

text \<open>
  The loop of lines 152-160 over the entries of \<open>error.logs\<close>. On an entry without a
  method \<open>includes\<close> the call \<open>log.includes\<close> throws, and the loop ends there.
\<close>

fun each_log :: "log_entry list \<Rightarrow> 'tx outcome" where
  "each_log [] = ([], Inr None)"
| "each_log (Line l # rest) = (case each_log rest of (t, r) \<Rightarrow> (log_line l # t, r))"
| "each_log (NoLine # rest) = ([], Inl (type_error ''log.includes is not a function''))"

text \<open>Lines 150-161: \<open>error.logs && Array.isArray(error.logs)\<close>, then the loop.\<close>

definition transaction_logs :: "log_entry list option \<Rightarrow> 'tx outcome" where
  "transaction_logs logs =
     (case logs of
        None \<Rightarrow> ([], Inr None)
      | Some entries \<Rightarrow>
          (case each_log entries of (t, r) \<Rightarrow> (Log Error ''Transaction Logs:'' # t, r)))"

text \<open>\<open>error.message\<close> is truthy.\<close>

definition truthy_message :: "thrown \<Rightarrow> bool" where
  "truthy_message error =
     (case err_message error of
        No_message \<Rightarrow> False
      | String_message m \<Rightarrow> m \<noteq> []
      | Other_message truthy shown \<Rightarrow> truthy)"

text \<open>
  The last branch of both \<open>catch\<close> blocks (lines 162-164 and 275-277), with \<open>buy\<close> or
  \<open>sell\<close> in the message: it calls \<open>error.toString()\<close>.
\<close>

definition no_message :: "string \<Rightarrow> thrown \<Rightarrow> 'tx outcome" where
  "no_message action error =
     (case err_toString error of
        Some shown \<Rightarrow>
          ([Log Error (''PumpPortal '' @ action @ '' error: '' @ shown)], Inr None)
      | None \<Rightarrow> ([], Inl (type_error ''error.toString is not a function'')))"

text \<open>
  The \<open>catch\<close> block of buy (lines 116-166): what it logs, and how it ends. It ends
  with \<open>return null\<close> (\<open>Inr None\<close>) unless one of its own statements throws: the read
  \<open>error.response\<close> of line 117 on \<open>undefined\<close> or \<open>null\<close>, the call
  \<open>error.message.includes\<close> of line 141 on a message that is not a string, the call
  \<open>log.includes\<close> of line 153 on an entry that is not a string, the call
  \<open>error.toString()\<close> of line 163 on a value without that method. What is thrown
  there leaves the operation: the promise rejects (\<open>Inl\<close>).
\<close>

definition buy_catch :: "string \<Rightarrow> js_thrown \<Rightarrow> 'tx outcome" where
  "buy_catch tokenMint e =
     (case e of
        Thrown_undefined \<Rightarrow>
          ([], Inl (type_error ''Cannot read properties of undefined (reading 'response')''))
      | Thrown_null \<Rightarrow>
          ([], Inl (type_error ''Cannot read properties of null (reading 'response')''))
      | Thrown_object error \<Rightarrow>
          (case err_response error of
             Some response \<Rightarrow> (on_http_error tokenMint response, Inr None)
           | None \<Rightarrow>
               if truthy_message error then
                 (case err_message error of
                    String_message m \<Rightarrow>
                      (case transaction_logs (err_logs error) of
                         (t, r) \<Rightarrow>
                           (Log Error (''PumpPortal buy error: '' @ m) #
                            (if mentions_exhaustion m then bonding_curve_diagnostic tokenMint
                             else []) @ t,
                            r))
                  | other \<Rightarrow>
                      ([Log Error (''PumpPortal buy error: '' @ message_text error)],
                       Inl (type_error ''error.message.includes is not a function'')))
               else no_message ''buy'' error))"

text \<open>
  The \<open>catch\<close> block of sell (lines 251-279). The read \<open>error.response\<close> of line 252
  and the call \<open>error.toString()\<close> of line 276 can throw in it.
\<close>

definition sell_catch :: "string \<Rightarrow> js_thrown \<Rightarrow> 'tx outcome" where
  "sell_catch tokenMint e =
     (case e of
        Thrown_undefined \<Rightarrow>
          ([], Inl (type_error ''Cannot read properties of undefined (reading 'response')''))
      | Thrown_null \<Rightarrow>
          ([], Inl (type_error ''Cannot read properties of null (reading 'response')''))
      | Thrown_object error \<Rightarrow>
          (case err_response error of
             Some response \<Rightarrow> (on_http_error tokenMint response, Inr None)
           | None \<Rightarrow>
               if truthy_message error
               then ([Log Error (''PumpPortal sell error: '' @ message_text error)], Inr None)
               else no_message ''sell'' error))"

text \<open>
  The two exported operations: the \<open>try\<close> block, and on a thrown value the \<open>catch\<close>
  block.
\<close>

definition buyViaPumpPortal ::
  "'tx env \<Rightarrow> wallet \<Rightarrow> string \<Rightarrow> js_number \<Rightarrow> js_number \<Rightarrow> js_number \<Rightarrow> 'tx outcome" where
  "buyViaPumpPortal env wallet tokenMint solAmount slippagePercent priorityFee =
     (case buy_try env wallet tokenMint solAmount slippagePercent priorityFee of
        (t, Inr result) \<Rightarrow> (t, Inr result)
      | (t, Inl error) \<Rightarrow> (case buy_catch tokenMint error of (t', r) \<Rightarrow> (t @ t', r)))"

definition sellViaPumpPortal ::
  "'tx env \<Rightarrow> wallet \<Rightarrow> string \<Rightarrow> js_number \<Rightarrow> js_number \<Rightarrow> js_number \<Rightarrow> 'tx outcome" where
  "sellViaPumpPortal env wallet tokenMint tokenAmount slippagePercent priorityFee =
     (case sell_try env wallet tokenMint tokenAmount slippagePercent priorityFee of
        (t, Inr result) \<Rightarrow> (t, Inr result)
      | (t, Inl error) \<Rightarrow> (case sell_catch tokenMint error of (t', r) \<Rightarrow> (t @ t', r)))"

section \<open>Observations on a trace\<close>

fun is_log :: "'tx event \<Rightarrow> bool" where
  "is_log (Log l m) = True"
| "is_log (LogWith l m d) = True"
| "is_log ev = False"

fun is_warning :: "'tx event \<Rightarrow> bool" where
  "is_warning (Log l m) = (l = Warn)"
| "is_warning (LogWith l m d) = (l = Warn)"
| "is_warning ev = False"

fun is_http_post :: "'tx event \<Rightarrow> bool" where
  "is_http_post (HttpPost url body config) = True"
| "is_http_post ev = False"

fun is_deserialize :: "'tx event \<Rightarrow> bool" where
  "is_deserialize (Deserialize d) = True"
| "is_deserialize ev = False"

fun is_sign :: "'tx event \<Rightarrow> bool" where
  "is_sign (SignTx t w) = True"
| "is_sign ev = False"

fun is_send :: "'tx event \<Rightarrow> bool" where
  "is_send (SendRawTransaction raw opts) = True"
| "is_send ev = False"

text \<open>The calls made to the external collaborators: everything but the logging.\<close>

definition external_calls :: "'tx event list \<Rightarrow> 'tx event list" where
  "external_calls t = filter (\<lambda>ev. \<not> is_log ev) t"


section \<open>The stages of an operation\<close>

text \<open>
  The specification's view of an operation (its sections 2 and 7), written from its
  words and not from the source: five stages (address validation, request
  construction, remote build, local signing, submit and confirm), and as outcome the
  first stage that fails, or the transaction identifier that the submission returned.
  There is no logging here. \<open>body\<close> builds the request from the validated address.
  The theorems of the section on what an operation returns compare the two operations
  of the source with it.
\<close>

datatype failure =
    MalformedAddress
  | RemoteBuildFailed
  | EmptyPayload
  | DeserializeFailed
  | SigningFailed
  | SerializeFailed
  | SubmissionFailed
  | BlockhashFailed
  | ConfirmationFailed
  | FailedOnChain

definition local_stages :: "'tx env \<Rightarrow> wallet \<Rightarrow> string \<Rightarrow> failure + string" where
  "local_stages env wallet data =
     (case deserializeTx env data of
        Inl e \<Rightarrow> Inl DeserializeFailed
      | Inr transaction \<Rightarrow>
     (case signTx env transaction wallet of
        Inl e \<Rightarrow> Inl SigningFailed
      | Inr signed \<Rightarrow>
     (case serializeTx env signed of
        Inl e \<Rightarrow> Inl SerializeFailed
      | Inr raw \<Rightarrow>
     (case sendRawTransaction env raw send_opts of
        Inl e \<Rightarrow> Inl SubmissionFailed
      | Inr signature \<Rightarrow>
     (case getLatestBlockhash env ''finalized'' of
        Inl e \<Rightarrow> Inl BlockhashFailed
      | Inr b \<Rightarrow>
     (case confirmTransaction env
             \<lparr>cs_signature = signature, cs_blockhash = blockhash b,
              cs_lastValidBlockHeight = lastValidBlockHeight b\<rparr> ''confirmed'' of
        Inl e \<Rightarrow> Inl ConfirmationFailed
      | Inr (Some err) \<Rightarrow> Inl FailedOnChain
      | Inr None \<Rightarrow> Inr signature))))))"

definition stages ::
  "'tx env \<Rightarrow> wallet \<Rightarrow> string \<Rightarrow> (string \<Rightarrow> post_body) \<Rightarrow> failure + string" where
  "stages env wallet tokenMint body =
     (case newPublicKey env tokenMint of
        Inl e \<Rightarrow> Inl MalformedAddress
      | Inr validTokenMint \<Rightarrow>
     (case axios_post env PUMP_PORTAL_API (body validTokenMint) axios_config of
        Inl e \<Rightarrow> Inl RemoteBuildFailed
      | Inr None \<Rightarrow> Inl EmptyPayload
      | Inr (Some data) \<Rightarrow>
          if data = [] then Inl EmptyPayload else local_stages env wallet data))"

definition buy_body ::
  "'tx env \<Rightarrow> wallet \<Rightarrow> js_number \<Rightarrow> js_number \<Rightarrow> js_number \<Rightarrow> string \<Rightarrow> post_body" where
  "buy_body env wallet solAmount slippagePercent priorityFee validTokenMint =
     ObjectBody (buy_requestData env wallet validTokenMint solAmount slippagePercent priorityFee)"

definition sell_body ::
  "'tx env \<Rightarrow> wallet \<Rightarrow> js_number \<Rightarrow> js_number \<Rightarrow> js_number \<Rightarrow> string \<Rightarrow> post_body" where
  "sell_body env wallet tokenAmount slippagePercent priorityFee validTokenMint =
     StringBody (paramsToString env
       (sell_params env wallet validTokenMint tokenAmount slippagePercent priorityFee))"

text \<open>What an operation returns when its \<open>try\<close> block ends with \<open>r\<close>.\<close>

definition returned :: "js_thrown + string option \<Rightarrow> string option" where
  "returned r = (case r of Inl error \<Rightarrow> None | Inr v \<Rightarrow> v)"

text \<open>
  A thrown value as the libraries called here throw them: an object with a method
  \<open>toString\<close> whose message, when truthy, is a string, and whose log lines, when it has
  some, are strings. On such a value no statement of the \<open>catch\<close> blocks throws.
\<close>

fun is_line :: "log_entry \<Rightarrow> bool" where
  "is_line (Line l) = True"
| "is_line NoLine = False"

definition error_object :: "js_thrown \<Rightarrow> bool" where
  "error_object e =
     (case e of
        Thrown_undefined \<Rightarrow> False
      | Thrown_null \<Rightarrow> False
      | Thrown_object error \<Rightarrow>
          err_toString error \<noteq> None \<and>
          (case err_message error of
             Other_message truthy shown \<Rightarrow> \<not> truthy
           | m \<Rightarrow> True) \<and>
          (case err_logs error of
             None \<Rightarrow> True
           | Some entries \<Rightarrow> list_all is_line entries))"

definition result_of :: "failure + string \<Rightarrow> js_thrown + string option" where
  "result_of r = (case r of Inl f \<Rightarrow> Inr None | Inr signature \<Rightarrow> Inr (Some signature))"

section \<open>Example environments\<close>

text \<open>
  Concrete collaborators, to run the operations on: in \<open>calm_env\<close> every call succeeds
  (a transaction is a number here); the others differ from it in one call.
\<close>

definition a_wallet :: wallet where
  "a_wallet = \<lparr>publicKey = ''Wa11et'', secretKey = ''secret''\<rparr>"

definition a_mint :: string where
  "a_mint = ''So11111111111111111111111111111111111111112''"

definition plain_error :: "string \<Rightarrow> thrown" where
  "plain_error m =
     \<lparr>err_response = None, err_message = String_message m, err_logs = None,
      err_toString = Some (''Error: '' @ m)\<rparr>"

definition calm_env :: "nat env" where
  "calm_env =
     \<lparr>newPublicKey = (\<lambda>s. if length s = 43 then Inr s
                           else Inl (Thrown_object (plain_error ''Invalid public key input''))),
      axios_post = (\<lambda>url body config. Inr (Some ''tx-bytes'')),
      deserializeTx = (\<lambda>d. Inr 0),
      signTx = (\<lambda>t w. Inr (Suc t)),
      serializeTx = (\<lambda>t. Inr ''signed-bytes''),
      sendRawTransaction = (\<lambda>raw opts. Inr ''5igNature''),
      getLatestBlockhash = (\<lambda>c. Inr \<lparr>blockhash = ''B1ock'', lastValidBlockHeight = 100\<rparr>),
      confirmTransaction = (\<lambda>s c. Inr None),
      shortestDigits = (\<lambda>x. ''0.0123''),
      paramsToString = (\<lambda>ps. concat (map (\<lambda>(k, v). k @ ''='' @ v @ ''&'') ps))\<rparr>"

text \<open>The number \<open>0.0123\<close>: the binary64 value nearest to it.\<close>

definition js_0_0123 :: js_number where
  "js_0_0123 = Finite 7090467253332109 (- 59)"

definition js_5 :: js_number where
  "js_5 = Finite 5 0"

text \<open>The remote builder answers with an HTTP error status and a text.\<close>

definition http_failure :: "int \<Rightarrow> string \<Rightarrow> thrown" where
  "http_failure status body =
     \<lparr>err_response = Some \<lparr>http_status = status, http_data = DataText body\<rparr>,
      err_message = String_message ''Request failed'',
      err_logs = None,
      err_toString = Some ''AxiosError: Request failed''\<rparr>"

definition refusing_env :: "int \<Rightarrow> string \<Rightarrow> nat env" where
  "refusing_env status body =
     calm_env\<lparr>axios_post := (\<lambda>url b config. Inl (Thrown_object (http_failure status body)))\<rparr>"

text \<open>The remote builder answers with an empty body.\<close>

definition silent_env :: "nat env" where
  "silent_env = calm_env\<lparr>axios_post := (\<lambda>url b config. Inr (Some []))\<rparr>"

text \<open>The transaction lands and fails on chain.\<close>

definition failing_env :: "nat env" where
  "failing_env = calm_env\<lparr>confirmTransaction := (\<lambda>s c. Inr (Some ''InstructionError''))\<rparr>"

text \<open>The submission throws an error that carries execution logs.\<close>

definition simulation_error :: "string \<Rightarrow> string list \<Rightarrow> thrown" where
  "simulation_error m logs =
     \<lparr>err_response = None, err_message = String_message m,
      err_logs = Some (map Line logs), err_toString = Some (''Error: '' @ m)\<rparr>"

definition rejecting_env :: "string \<Rightarrow> string list \<Rightarrow> nat env" where
  "rejecting_env m logs =
     calm_env\<lparr>sendRawTransaction :=
       (\<lambda>raw opts. Inl (Thrown_object (simulation_error m logs)))\<rparr>"

text \<open>
  The HTTP client rejects with no value, as \<open>Promise.reject()\<close> does (an interceptor
  installed on the shared client can do so).
\<close>

definition bare_reject_env :: "nat env" where
  "bare_reject_env = calm_env\<lparr>axios_post := (\<lambda>url b config. Inl Thrown_undefined)\<rparr>"

section \<open>What an operation returns\<close>

lemma returned_simps [simp]: "returned (Inl e) = None" "returned (Inr v) = v"
  by (simp_all add: returned_def)

lemma local_stages_result:
  "returned (snd (sign_submit_confirm env wallet action data)) =
   (case local_stages env wallet data of Inl f \<Rightarrow> None | Inr s \<Rightarrow> Some s)"
  by (simp add: sign_submit_confirm_def local_stages_def Let_def split: sum.splits option.splits)

lemma on_response_result:
  "returned (snd (on_response env wallet action rd)) =
   (case rd of None \<Rightarrow> None | Some data \<Rightarrow> if data = [] then None else
      (case local_stages env wallet data of Inl f \<Rightarrow> None | Inr s \<Rightarrow> Some s))"
  by (simp add: on_response_def local_stages_result split: option.splits)

lemma invalid_address_result: "returned (snd (invalid_address tokenMint e)) = None"
  by (simp add: invalid_address_def split: js_thrown.splits)

lemma buy_try_result:
  "returned (snd (buy_try env wallet tokenMint solAmount slippagePercent priorityFee)) =
   (case stages env wallet tokenMint (buy_body env wallet solAmount slippagePercent priorityFee) of
      Inl f \<Rightarrow> None | Inr s \<Rightarrow> Some s)"
  by (simp add: buy_try_def stages_def buy_body_def Let_def split_beta on_response_result
        invalid_address_result split: sum.splits option.splits)

lemma sell_try_result:
  "returned (snd (sell_try env wallet tokenMint tokenAmount slippagePercent priorityFee)) =
   (case stages env wallet tokenMint (sell_body env wallet tokenAmount slippagePercent priorityFee) of
      Inl f \<Rightarrow> None | Inr s \<Rightarrow> Some s)"
  by (simp add: sell_try_def stages_def sell_body_def Let_def split_beta on_response_result
        invalid_address_result split: sum.splits option.splits)

lemma buy_trace:
  "fst (buyViaPumpPortal env wallet tokenMint amount slippagePercent priorityFee) =
   fst (buy_try env wallet tokenMint amount slippagePercent priorityFee) @
   (case snd (buy_try env wallet tokenMint amount slippagePercent priorityFee) of
      Inl error \<Rightarrow> fst (buy_catch tokenMint error) | Inr r \<Rightarrow> [])"
  by (simp add: buyViaPumpPortal_def split_beta split: prod.splits sum.splits)

lemma sell_trace:
  "fst (sellViaPumpPortal env wallet tokenMint amount slippagePercent priorityFee) =
   fst (sell_try env wallet tokenMint amount slippagePercent priorityFee) @
   (case snd (sell_try env wallet tokenMint amount slippagePercent priorityFee) of
      Inl error \<Rightarrow> fst (sell_catch tokenMint error) | Inr r \<Rightarrow> [])"
  by (simp add: sellViaPumpPortal_def split_beta split: prod.splits sum.splits)

lemma buy_returns:
  "snd (buyViaPumpPortal (env :: 'tx env) wallet tokenMint amount slippagePercent priorityFee) =
   (case snd (buy_try env wallet tokenMint amount slippagePercent priorityFee) of
      Inl error \<Rightarrow> snd (buy_catch tokenMint error :: 'tx outcome) | Inr r \<Rightarrow> Inr r)"
  by (simp add: buyViaPumpPortal_def split_beta split: prod.splits sum.splits)

lemma sell_returns:
  "snd (sellViaPumpPortal (env :: 'tx env) wallet tokenMint amount slippagePercent priorityFee) =
   (case snd (sell_try env wallet tokenMint amount slippagePercent priorityFee) of
      Inl error \<Rightarrow> snd (sell_catch tokenMint error :: 'tx outcome) | Inr r \<Rightarrow> Inr r)"
  by (simp add: sellViaPumpPortal_def split_beta split: prod.splits sum.splits)

lemma each_log_lines: "list_all is_line entries \<Longrightarrow> snd (each_log entries) = Inr None"
  by (induction entries rule: each_log.induct) (simp_all add: split_beta)

lemma catch_of_error_object:
  assumes "error_object e"
  shows "snd (buy_catch tokenMint e) = Inr None" and "snd (sell_catch tokenMint e) = Inr None"
  using assms
  by (auto simp: error_object_def buy_catch_def sell_catch_def transaction_logs_def
        truthy_message_def no_message_def split_beta each_log_lines
        split: js_thrown.splits option.splits js_message.splits)

text \<open>
  When no thrown value reaches a \<open>catch\<close> block but such objects, the operations do as
  the stages say: \<open>null\<close> on every failure, the identifier otherwise.
\<close>

lemma buy_result:
  assumes "\<And>e. snd (buy_try env wallet tokenMint amount slippagePercent priorityFee) = Inl e \<Longrightarrow>
             error_object e"
  shows "snd (buyViaPumpPortal (env :: 'tx env) wallet tokenMint amount slippagePercent priorityFee) =
     result_of (stages env wallet tokenMint (buy_body env wallet amount slippagePercent priorityFee))"
proof (cases "snd (buy_try env wallet tokenMint amount slippagePercent priorityFee)")
  case (Inl e)
  with assms have "snd (buy_catch tokenMint e :: 'tx outcome) = Inr None"
    by (simp add: catch_of_error_object)
  moreover obtain f where
    "stages env wallet tokenMint (buy_body env wallet amount slippagePercent priorityFee) = Inl f"
    using buy_try_result [of env wallet tokenMint amount slippagePercent priorityFee] Inl
    by (cases "stages env wallet tokenMint (buy_body env wallet amount slippagePercent priorityFee)")
       simp_all
  ultimately show ?thesis
    using Inl by (simp add: buy_returns result_of_def)
next
  case (Inr r)
  then show ?thesis
    using buy_try_result [of env wallet tokenMint amount slippagePercent priorityFee]
    by (cases "stages env wallet tokenMint (buy_body env wallet amount slippagePercent priorityFee)")
       (simp_all add: buy_returns result_of_def)
qed

lemma sell_result:
  assumes "\<And>e. snd (sell_try env wallet tokenMint amount slippagePercent priorityFee) = Inl e \<Longrightarrow>
             error_object e"
  shows "snd (sellViaPumpPortal (env :: 'tx env) wallet tokenMint amount slippagePercent priorityFee) =
     result_of (stages env wallet tokenMint (sell_body env wallet amount slippagePercent priorityFee))"
proof (cases "snd (sell_try env wallet tokenMint amount slippagePercent priorityFee)")
  case (Inl e)
  with assms have "snd (sell_catch tokenMint e :: 'tx outcome) = Inr None"
    by (simp add: catch_of_error_object)
  moreover obtain f where
    "stages env wallet tokenMint (sell_body env wallet amount slippagePercent priorityFee) = Inl f"
    using sell_try_result [of env wallet tokenMint amount slippagePercent priorityFee] Inl
    by (cases "stages env wallet tokenMint (sell_body env wallet amount slippagePercent priorityFee)")
       simp_all
  ultimately show ?thesis
    using Inl by (simp add: sell_returns result_of_def)
next
  case (Inr r)
  then show ?thesis
    using sell_try_result [of env wallet tokenMint amount slippagePercent priorityFee]
    by (cases "stages env wallet tokenMint (sell_body env wallet amount slippagePercent priorityFee)")
       (simp_all add: sell_returns result_of_def)
qed

lemma success_result:
  assumes "stages env wallet tokenMint (buy_body env wallet amount slippagePercent priorityFee) =
             Inr signature"
  shows "snd (buyViaPumpPortal env wallet tokenMint amount slippagePercent priorityFee) =
           Inr (Some signature)"
proof -
  have "returned (snd (buy_try env wallet tokenMint amount slippagePercent priorityFee)) =
          Some signature"
    using assms by (simp add: buy_try_result)
  then show ?thesis
    by (cases "snd (buy_try env wallet tokenMint amount slippagePercent priorityFee)")
       (simp_all add: buy_returns)
qed

lemma success_result_sell:
  assumes "stages env wallet tokenMint (sell_body env wallet amount slippagePercent priorityFee) =
             Inr signature"
  shows "snd (sellViaPumpPortal env wallet tokenMint amount slippagePercent priorityFee) =
           Inr (Some signature)"
proof -
  have "returned (snd (sell_try env wallet tokenMint amount slippagePercent priorityFee)) =
          Some signature"
    using assms by (simp add: sell_try_result)
  then show ?thesis
    by (cases "snd (sell_try env wallet tokenMint amount slippagePercent priorityFee)")
       (simp_all add: sell_returns)
qed

lemma bare_reject_stages:
  "newPublicKey bare_reject_env a_mint = Inr a_mint"
  "axios_post bare_reject_env u b c = Inl Thrown_undefined"
  "shortestDigits bare_reject_env x = ''0.0123''"
  by (simp_all add: bare_reject_env_def calm_env_def a_mint_def)

text \<open>
  Claim C1 says that for every input and every external failure buy and sell return
  \<open>null\<close> and let no exception pass to the caller. The code breaks it when a
  collaborator rejects with \<open>undefined\<close> (or \<open>null\<close>): the \<open>catch\<close> block reads
  \<open>error.response\<close> first (lines 117 and 252), that read throws a \<open>TypeError\<close> inside
  the handler, and the promise of the operation rejects with it. Here the HTTP client
  rejects with \<open>undefined\<close>: the remote build fails, and neither operation returns
  \<open>null\<close>.
\<close>

theorem rejection_with_undefined_escapes:
  "axios_post bare_reject_env PUMP_PORTAL_API
     (buy_body bare_reject_env a_wallet js_0_0123 js_5 js_5 a_mint) axios_config =
     Inl Thrown_undefined \<and>
   stages bare_reject_env a_wallet a_mint
     (buy_body bare_reject_env a_wallet js_0_0123 js_5 js_5) = Inl RemoteBuildFailed \<and>
   snd (buyViaPumpPortal bare_reject_env a_wallet a_mint js_0_0123 js_5 js_5) =
     Inl (type_error ''Cannot read properties of undefined (reading 'response')'') \<and>
   snd (sellViaPumpPortal bare_reject_env a_wallet a_mint js_0_0123 js_5 js_5) =
     Inl (type_error ''Cannot read properties of undefined (reading 'response')'')"
  by (simp add: buyViaPumpPortal_def sellViaPumpPortal_def buy_try_def sell_try_def
        buy_catch_def sell_catch_def stages_def bare_reject_stages Let_def)

section \<open>Address validation\<close>

lemma invalid_address_runs:
  assumes "newPublicKey env tokenMint = Inl error"
  shows "snd (buyViaPumpPortal env wallet tokenMint amount slippagePercent priorityFee) = Inr None \<and>
         (\<forall>ev \<in> set (fst (buyViaPumpPortal env wallet tokenMint amount slippagePercent priorityFee)).
            is_log ev)"
    and "snd (sellViaPumpPortal env wallet tokenMint amount slippagePercent priorityFee) = Inr None \<and>
         (\<forall>ev \<in> set (fst (sellViaPumpPortal env wallet tokenMint amount slippagePercent priorityFee)).
            is_log ev)"
  using assms
  by (cases error;
      simp add: buyViaPumpPortal_def sellViaPumpPortal_def buy_try_def sell_try_def
        invalid_address_def buy_catch_def sell_catch_def type_error_def truthy_message_def
        transaction_logs_def mentions_exhaustion_def message_text_def)+

lemma log_is_no_call:
  "is_log ev \<Longrightarrow> \<not> is_sign ev \<and> \<not> is_send ev \<and> \<not> is_http_post ev \<and> \<not> is_deserialize ev"
  by (cases ev) simp_all

lemma only_logs_no_calls:
  assumes "\<forall>ev \<in> set t. is_log ev"
  shows "filter is_sign t = []" "filter is_send t = []" "filter is_http_post t = []"
    "filter is_deserialize t = []" "external_calls t = []"
  using assms log_is_no_call by (auto simp: filter_empty_conv external_calls_def)

text \<open>
  Claim C2. For every token identifier that the address parser rejects, buy and sell
  return \<open>null\<close> and never contact the remote builder: the trace holds no HTTP request,
  and no call to an external collaborator at all.
\<close>

theorem malformed_identifier_short_circuits:
  assumes "newPublicKey env tokenMint = Inl error"
  shows "snd (buyViaPumpPortal env wallet tokenMint amount slippagePercent priorityFee) = Inr None \<and>
         snd (sellViaPumpPortal env wallet tokenMint amount slippagePercent priorityFee) = Inr None \<and>
         filter is_http_post (fst (buyViaPumpPortal env wallet tokenMint amount slippagePercent priorityFee)) = [] \<and>
         filter is_http_post (fst (sellViaPumpPortal env wallet tokenMint amount slippagePercent priorityFee)) = [] \<and>
         external_calls (fst (buyViaPumpPortal env wallet tokenMint amount slippagePercent priorityFee)) = [] \<and>
         external_calls (fst (sellViaPumpPortal env wallet tokenMint amount slippagePercent priorityFee)) = []"
proof -
  note b = invalid_address_runs(1) [OF assms, of wallet amount slippagePercent priorityFee]
  note s = invalid_address_runs(2) [OF assms, of wallet amount slippagePercent priorityFee]
  from b s show ?thesis
    by (simp add: only_logs_no_calls)
qed

theorem malformed_identifier_short_circuits_witness:
  "newPublicKey calm_env ''not-an-address'' =
     Inl (Thrown_object (plain_error ''Invalid public key input'')) \<and>
   buyViaPumpPortal calm_env a_wallet ''not-an-address'' js_5 js_5 js_5 =
     ([Log Info ''Using PumpPortal API to buy 5 SOL worth of not-an-a...'',
       Log Error ''Invalid token mint address: not-an-address - Invalid public key input''],
      Inr None) \<and>
   filter is_http_post (fst (sellViaPumpPortal calm_env a_wallet ''not-an-address'' js_5 js_5 js_5)) = []"
proof -
  have p: "newPublicKey calm_env ''not-an-address'' =
      Inl (Thrown_object (plain_error ''Invalid public key input''))"
    by (simp add: calm_env_def)
  have five: "number_toString sh js_5 = ''5''" for sh
    by (simp add: number_toString_def js_5_def show_int_def show_nat.simps digit_char_def)
  have t: "buyViaPumpPortal calm_env a_wallet ''not-an-address'' js_5 js_5 js_5 =
     ([Log Info ''Using PumpPortal API to buy 5 SOL worth of not-an-a...'',
       Log Error ''Invalid token mint address: not-an-address - Invalid public key input''],
      Inr None)"
    by (simp add: buyViaPumpPortal_def buy_try_def invalid_address_def p five message_text_def
          plain_error_def)
  from p t malformed_identifier_short_circuits [OF p, of a_wallet js_5 js_5 js_5]
  show ?thesis by simp
qed

section \<open>Empty responses\<close>

lemma on_response_empty:
  "rd = None \<or> rd = Some [] \<Longrightarrow>
   on_response env wallet action rd = ([Log Error ''Empty response from PumpPortal API''], Inr None)"
  by (auto simp: on_response_def)

text \<open>
  Claim C6. When the remote builder answers with a missing or zero-length body, buy and
  sell return \<open>null\<close>, the last thing logged is the empty-response message at error
  level, the one external call made is the single HTTP request, and the transaction is
  never deserialised.
\<close>

theorem empty_response_returns_null:
  assumes "newPublicKey env tokenMint = Inr v"
    and "axios_post env PUMP_PORTAL_API
           (buy_body env wallet amount slippagePercent priorityFee v) axios_config = Inr rb"
    and "rb = None \<or> rb = Some []"
    and "axios_post env PUMP_PORTAL_API
           (sell_body env wallet amount slippagePercent priorityFee v) axios_config = Inr rs"
    and "rs = None \<or> rs = Some []"
  shows "snd (buyViaPumpPortal env wallet tokenMint amount slippagePercent priorityFee) = Inr None \<and>
         last (fst (buyViaPumpPortal env wallet tokenMint amount slippagePercent priorityFee)) =
           Log Error ''Empty response from PumpPortal API'' \<and>
         external_calls (fst (buyViaPumpPortal env wallet tokenMint amount slippagePercent priorityFee)) =
           [HttpPost PUMP_PORTAL_API (buy_body env wallet amount slippagePercent priorityFee v)
              axios_config] \<and>
         filter is_deserialize
           (fst (buyViaPumpPortal env wallet tokenMint amount slippagePercent priorityFee)) = [] \<and>
         snd (sellViaPumpPortal env wallet tokenMint amount slippagePercent priorityFee) = Inr None \<and>
         last (fst (sellViaPumpPortal env wallet tokenMint amount slippagePercent priorityFee)) =
           Log Error ''Empty response from PumpPortal API'' \<and>
         external_calls (fst (sellViaPumpPortal env wallet tokenMint amount slippagePercent priorityFee)) =
           [HttpPost PUMP_PORTAL_API (sell_body env wallet amount slippagePercent priorityFee v)
              axios_config] \<and>
         filter is_deserialize
           (fst (sellViaPumpPortal env wallet tokenMint amount slippagePercent priorityFee)) = []"
proof -
  have b: "buyViaPumpPortal env wallet tokenMint amount slippagePercent priorityFee =
      ([Log Info (''Using PumpPortal API to buy '' @ number_toString (shortestDigits env) amount @
                  '' SOL worth of '' @ take 8 tokenMint @ ''...''),
        LogWith Debug ''PumpPortal API request:''
          (buy_requestData env wallet v amount slippagePercent priorityFee),
        HttpPost PUMP_PORTAL_API (buy_body env wallet amount slippagePercent priorityFee v)
          axios_config,
        Log Error ''Empty response from PumpPortal API''], Inr None)"
    using assms(1,2)
    by (simp add: buyViaPumpPortal_def buy_try_def buy_body_def Let_def
          on_response_empty [OF assms(3)])
  have s: "sellViaPumpPortal env wallet tokenMint amount slippagePercent priorityFee =
      ([Log Info (''Using PumpPortal API to sell '' @ number_toString (shortestDigits env) amount @
                  '' tokens of '' @ take 8 tokenMint @ ''...''),
        Log Debug (''PumpPortal API request: '' @ paramsToString env
          (sell_params env wallet v amount slippagePercent priorityFee)),
        HttpPost PUMP_PORTAL_API (sell_body env wallet amount slippagePercent priorityFee v)
          axios_config,
        Log Error ''Empty response from PumpPortal API''], Inr None)"
    using assms(1,4)
    by (simp add: sellViaPumpPortal_def sell_try_def sell_body_def Let_def
          on_response_empty [OF assms(5)])
  show ?thesis
    by (simp add: b s external_calls_def)
qed

theorem empty_response_returns_null_witness:
  "newPublicKey silent_env a_mint = Inr a_mint \<and>
   axios_post silent_env PUMP_PORTAL_API
     (buy_body silent_env a_wallet js_5 js_5 js_5 a_mint) axios_config = Inr (Some []) \<and>
   snd (buyViaPumpPortal silent_env a_wallet a_mint js_5 js_5 js_5) = Inr None \<and>
   filter is_deserialize (fst (buyViaPumpPortal silent_env a_wallet a_mint js_5 js_5 js_5)) = [] \<and>
   snd (sellViaPumpPortal silent_env a_wallet a_mint js_5 js_5 js_5) = Inr None \<and>
   filter is_deserialize (fst (sellViaPumpPortal silent_env a_wallet a_mint js_5 js_5 js_5)) = []"
proof -
  have p: "newPublicKey silent_env a_mint = Inr a_mint"
    by (simp add: silent_env_def calm_env_def a_mint_def)
  have b: "axios_post silent_env PUMP_PORTAL_API
     (buy_body silent_env a_wallet js_5 js_5 js_5 a_mint) axios_config = Inr (Some [])"
    by (simp add: silent_env_def)
  have s: "axios_post silent_env PUMP_PORTAL_API
     (sell_body silent_env a_wallet js_5 js_5 js_5 a_mint) axios_config = Inr (Some [])"
    by (simp add: silent_env_def)
  from p b empty_response_returns_null [OF p b _ s, of ]
  show ?thesis by simp
qed

section \<open>Successful trades\<close>

text \<open>
  Claim C7. When the remote build, the deserialising, the signing, the submission, the
  block reference fetch and the confirmation all succeed and the confirmation carries
  no on-chain error, buy and sell return exactly the identifier that the submission
  call returned.
\<close>

theorem success_returns_submitted_identifier:
  assumes "newPublicKey env tokenMint = Inr v"
    and "axios_post env PUMP_PORTAL_API
           (buy_body env wallet amount slippagePercent priorityFee v) axios_config = Inr (Some data)"
    and "axios_post env PUMP_PORTAL_API
           (sell_body env wallet amount slippagePercent priorityFee v) axios_config = Inr (Some data)"
    and "data \<noteq> []"
    and "deserializeTx env data = Inr transaction"
    and "signTx env transaction wallet = Inr signed"
    and "serializeTx env signed = Inr raw"
    and "sendRawTransaction env raw send_opts = Inr signature"
    and "getLatestBlockhash env ''finalized'' = Inr b"
    and "confirmTransaction env
           \<lparr>cs_signature = signature, cs_blockhash = blockhash b,
            cs_lastValidBlockHeight = lastValidBlockHeight b\<rparr> ''confirmed'' = Inr None"
  shows "snd (buyViaPumpPortal env wallet tokenMint amount slippagePercent priorityFee) =
           Inr (Some signature) \<and>
         snd (sellViaPumpPortal env wallet tokenMint amount slippagePercent priorityFee) =
           Inr (Some signature)"
proof -
  have "local_stages env wallet data = Inr signature"
    using assms(5-10) by (simp add: local_stages_def)
  then have "stages env wallet tokenMint (buy_body env wallet amount slippagePercent priorityFee) =
               Inr signature"
    and "stages env wallet tokenMint (sell_body env wallet amount slippagePercent priorityFee) =
               Inr signature"
    using assms(1-4) by (simp_all add: stages_def)
  then show ?thesis
    by (simp add: success_result success_result_sell)
qed

lemma calm_stages:
  "newPublicKey calm_env a_mint = Inr a_mint"
  "axios_post calm_env u body c = Inr (Some ''tx-bytes'')"
  "deserializeTx calm_env d = Inr 0"
  "signTx calm_env 0 w = Inr (Suc 0)"
  "serializeTx calm_env t = Inr ''signed-bytes''"
  "sendRawTransaction calm_env r opts = Inr ''5igNature''"
  "getLatestBlockhash calm_env cm = Inr \<lparr>blockhash = ''B1ock'', lastValidBlockHeight = 100\<rparr>"
  "confirmTransaction calm_env st cm = Inr None"
  by (simp_all add: calm_env_def a_mint_def)

theorem success_returns_submitted_identifier_witness:
  "sendRawTransaction calm_env ''signed-bytes'' send_opts = Inr ''5igNature'' \<and>
   snd (buyViaPumpPortal calm_env a_wallet a_mint js_0_0123 js_5 js_5) = Inr (Some ''5igNature'') \<and>
   snd (sellViaPumpPortal calm_env a_wallet a_mint js_0_0123 js_5 js_5) = Inr (Some ''5igNature'')"
  using success_returns_submitted_identifier [of calm_env a_mint a_mint a_wallet js_0_0123 js_5 js_5
      "''tx-bytes''" 0 "Suc 0" "''signed-bytes''" "''5igNature''"
      "\<lparr>blockhash = ''B1ock'', lastValidBlockHeight = 100\<rparr>"]
  by (simp add: calm_stages)

section \<open>On-chain failures\<close>

lemma each_log_never_says_failed:
  "Log Error (''Transaction failed: '' @ err) \<notin> set (fst (each_log entries :: 'tx outcome))"
  by (induction entries rule: each_log.induct) (simp_all add: split_beta log_line_def)

lemma catch_never_says_failed:
  "Log Error (''Transaction failed: '' @ err) \<notin> set (fst (buy_catch tokenMint e :: 'tx outcome))"
  "Log Error (''Transaction failed: '' @ err) \<notin> set (fst (sell_catch tokenMint e :: 'tx outcome))"
  using each_log_never_says_failed [of err]
  by (auto simp: buy_catch_def sell_catch_def on_http_error_def status_400_def
        bonding_curve_diagnostic_def transaction_logs_def no_message_def split_beta Let_def
        split: js_thrown.splits option.splits error_data.splits js_message.splits if_splits)

lemma failed_after_sent_shared:
  "Log Error (''Transaction failed: '' @ err) \<in> set (fst (sign_submit_confirm env wallet action data)) \<Longrightarrow>
   \<exists>signature. Log Info (''Transaction sent: '' @ signature) \<in>
      set (fst (sign_submit_confirm env wallet action data))"
  by (auto simp: sign_submit_confirm_def Let_def split: sum.splits option.splits)

lemma failed_after_sent_response:
  "Log Error (''Transaction failed: '' @ err) \<in> set (fst (on_response env wallet action rd)) \<Longrightarrow>
   \<exists>signature. Log Info (''Transaction sent: '' @ signature) \<in>
      set (fst (on_response env wallet action rd))"
  using failed_after_sent_shared [of err env wallet action]
  by (auto simp: on_response_def split: option.splits if_splits)


lemma failed_after_sent_buy_try:
  "Log Error (''Transaction failed: '' @ err) \<in>
     set (fst (buy_try env wallet tokenMint amount slippagePercent priorityFee)) \<Longrightarrow>
   \<exists>signature. Log Info (''Transaction sent: '' @ signature) \<in>
     set (fst (buy_try env wallet tokenMint amount slippagePercent priorityFee))"
  using failed_after_sent_response [of err env wallet "''BUY''"]
  by (auto simp: buy_try_def invalid_address_def Let_def split_beta
        split: sum.splits js_thrown.splits)

lemma failed_after_sent_sell_try:
  "Log Error (''Transaction failed: '' @ err) \<in>
     set (fst (sell_try env wallet tokenMint amount slippagePercent priorityFee)) \<Longrightarrow>
   \<exists>signature. Log Info (''Transaction sent: '' @ signature) \<in>
     set (fst (sell_try env wallet tokenMint amount slippagePercent priorityFee))"
  using failed_after_sent_response [of err env wallet "''SELL''"]
  by (auto simp: sell_try_def invalid_address_def Let_def split_beta
        split: sum.splits js_thrown.splits)

lemma failure_message_only_after_submission:
  assumes "Log Error (''Transaction failed: '' @ err) \<in>
     set (fst (buyViaPumpPortal env wallet tokenMint amount slippagePercent priorityFee))"
  shows "\<exists>signature. Log Info (''Transaction sent: '' @ signature) \<in>
     set (fst (buyViaPumpPortal env wallet tokenMint amount slippagePercent priorityFee))"
proof -
  have "Log Error (''Transaction failed: '' @ err) \<in>
     set (fst (buy_try env wallet tokenMint amount slippagePercent priorityFee))"
    using assms catch_never_says_failed(1) [of err tokenMint]
    unfolding buy_trace by (auto split: sum.splits)
  from failed_after_sent_buy_try [OF this] show ?thesis
    unfolding buy_trace by auto
qed

lemma failure_message_only_after_submission_sell:
  assumes "Log Error (''Transaction failed: '' @ err) \<in>
     set (fst (sellViaPumpPortal env wallet tokenMint amount slippagePercent priorityFee))"
  shows "\<exists>signature. Log Info (''Transaction sent: '' @ signature) \<in>
     set (fst (sellViaPumpPortal env wallet tokenMint amount slippagePercent priorityFee))"
proof -
  have "Log Error (''Transaction failed: '' @ err) \<in>
     set (fst (sell_try env wallet tokenMint amount slippagePercent priorityFee))"
    using assms catch_never_says_failed(2) [of err tokenMint]
    unfolding sell_trace by (auto split: sum.splits)
  from failed_after_sent_sell_try [OF this] show ?thesis
    unfolding sell_trace by auto
qed

lemma landed_but_failed_shared:
  assumes "deserializeTx env data = Inr transaction"
    and "signTx env transaction wallet = Inr signed"
    and "serializeTx env signed = Inr raw"
    and "sendRawTransaction env raw send_opts = Inr signature"
    and "getLatestBlockhash env ''finalized'' = Inr b"
    and "confirmTransaction env
           \<lparr>cs_signature = signature, cs_blockhash = blockhash b,
            cs_lastValidBlockHeight = lastValidBlockHeight b\<rparr> ''confirmed'' = Inr (Some err)"
  shows "sign_submit_confirm env wallet action data =
     ([Log Info (''Received transaction from PumpPortal API ('' @ show_nat (length data) @
                 '' bytes)''),
       Deserialize data,
       SignTx transaction wallet,
       Log Info ''Sending PumpPortal transaction...'',
       SendRawTransaction raw send_opts,
       Log Info (''Transaction sent: '' @ signature),
       GetLatestBlockhash ''finalized'',
       ConfirmTransaction \<lparr>cs_signature = signature, cs_blockhash = blockhash b,
            cs_lastValidBlockHeight = lastValidBlockHeight b\<rparr> ''confirmed'',
       Log Error (''Transaction failed: '' @ err)], Inr None)"
  using assms by (simp add: sign_submit_confirm_def)

text \<open>
  Claim C8. When the submission succeeds and the confirmation carries an on-chain
  error, buy and sell log that error (the message \<open>Transaction failed\<close>, last and at
  error level) and return \<open>null\<close>. The trace tells this from a transaction that was
  never submitted: it holds the submission and the message \<open>Transaction sent\<close>, and
  by \<open>failure_message_only_after_submission\<close> the message \<open>Transaction failed\<close> is
  logged in no run without them.
\<close>

theorem onchain_error_returns_null:
  assumes "newPublicKey env tokenMint = Inr v"
    and "axios_post env PUMP_PORTAL_API
           (buy_body env wallet amount slippagePercent priorityFee v) axios_config = Inr (Some data)"
    and "axios_post env PUMP_PORTAL_API
           (sell_body env wallet amount slippagePercent priorityFee v) axios_config = Inr (Some data)"
    and "data \<noteq> []"
    and "deserializeTx env data = Inr transaction"
    and "signTx env transaction wallet = Inr signed"
    and "serializeTx env signed = Inr raw"
    and "sendRawTransaction env raw send_opts = Inr signature"
    and "getLatestBlockhash env ''finalized'' = Inr b"
    and "confirmTransaction env
           \<lparr>cs_signature = signature, cs_blockhash = blockhash b,
            cs_lastValidBlockHeight = lastValidBlockHeight b\<rparr> ''confirmed'' = Inr (Some err)"
  shows "snd (buyViaPumpPortal env wallet tokenMint amount slippagePercent priorityFee) = Inr None \<and>
         last (fst (buyViaPumpPortal env wallet tokenMint amount slippagePercent priorityFee)) =
           Log Error (''Transaction failed: '' @ err) \<and>
         Log Info (''Transaction sent: '' @ signature) \<in>
           set (fst (buyViaPumpPortal env wallet tokenMint amount slippagePercent priorityFee)) \<and>
         filter is_send (fst (buyViaPumpPortal env wallet tokenMint amount slippagePercent priorityFee)) =
           [SendRawTransaction raw send_opts] \<and>
         snd (sellViaPumpPortal env wallet tokenMint amount slippagePercent priorityFee) = Inr None \<and>
         last (fst (sellViaPumpPortal env wallet tokenMint amount slippagePercent priorityFee)) =
           Log Error (''Transaction failed: '' @ err) \<and>
         Log Info (''Transaction sent: '' @ signature) \<in>
           set (fst (sellViaPumpPortal env wallet tokenMint amount slippagePercent priorityFee)) \<and>
         filter is_send (fst (sellViaPumpPortal env wallet tokenMint amount slippagePercent priorityFee)) =
           [SendRawTransaction raw send_opts]"
proof -
  note tail = landed_but_failed_shared [OF assms(5-10)]
  have r: "on_response env wallet action (Some data) = sign_submit_confirm env wallet action data"
    for action
    using assms(4) by (simp add: on_response_def)
  have b: "buyViaPumpPortal env wallet tokenMint amount slippagePercent priorityFee =
      ([Log Info (''Using PumpPortal API to buy '' @ number_toString (shortestDigits env) amount @
                  '' SOL worth of '' @ take 8 tokenMint @ ''...''),
        LogWith Debug ''PumpPortal API request:''
          (buy_requestData env wallet v amount slippagePercent priorityFee),
        HttpPost PUMP_PORTAL_API (buy_body env wallet amount slippagePercent priorityFee v)
          axios_config] @ fst (sign_submit_confirm env wallet ''BUY'' data), Inr None)"
    using assms(1,2)
    by (simp add: buyViaPumpPortal_def buy_try_def buy_body_def Let_def r tail)
  have s: "sellViaPumpPortal env wallet tokenMint amount slippagePercent priorityFee =
      ([Log Info (''Using PumpPortal API to sell '' @ number_toString (shortestDigits env) amount @
                  '' tokens of '' @ take 8 tokenMint @ ''...''),
        Log Debug (''PumpPortal API request: '' @ paramsToString env
          (sell_params env wallet v amount slippagePercent priorityFee)),
        HttpPost PUMP_PORTAL_API (sell_body env wallet amount slippagePercent priorityFee v)
          axios_config] @ fst (sign_submit_confirm env wallet ''SELL'' data), Inr None)"
    using assms(1,3)
    by (simp add: sellViaPumpPortal_def sell_try_def sell_body_def Let_def r tail)
  show ?thesis
    by (simp add: b s tail)
qed

lemma failing_stages:
  "newPublicKey failing_env a_mint = Inr a_mint"
  "axios_post failing_env u body c = Inr (Some ''tx-bytes'')"
  "deserializeTx failing_env d = Inr 0"
  "signTx failing_env 0 w = Inr (Suc 0)"
  "serializeTx failing_env t = Inr ''signed-bytes''"
  "sendRawTransaction failing_env r opts = Inr ''5igNature''"
  "getLatestBlockhash failing_env cm = Inr \<lparr>blockhash = ''B1ock'', lastValidBlockHeight = 100\<rparr>"
  "confirmTransaction failing_env st cm = Inr (Some ''InstructionError'')"
  by (simp_all add: failing_env_def calm_env_def a_mint_def)

theorem onchain_error_returns_null_witness:
  "confirmTransaction failing_env
     \<lparr>cs_signature = ''5igNature'', cs_blockhash = ''B1ock'', cs_lastValidBlockHeight = 100\<rparr>
     ''confirmed'' = Inr (Some ''InstructionError'') \<and>
   snd (buyViaPumpPortal failing_env a_wallet a_mint js_0_0123 js_5 js_5) = Inr None \<and>
   last (fst (buyViaPumpPortal failing_env a_wallet a_mint js_0_0123 js_5 js_5)) =
     Log Error ''Transaction failed: InstructionError'' \<and>
   snd (sellViaPumpPortal failing_env a_wallet a_mint js_0_0123 js_5 js_5) = Inr None \<and>
   last (fst (sellViaPumpPortal failing_env a_wallet a_mint js_0_0123 js_5 js_5)) =
     Log Error ''Transaction failed: InstructionError''"
  using onchain_error_returns_null [of failing_env a_mint a_mint a_wallet js_0_0123 js_5 js_5
      "''tx-bytes''" 0 "Suc 0" "''signed-bytes''" "''5igNature''"
      "\<lparr>blockhash = ''B1ock'', lastValidBlockHeight = 100\<rparr>" "''InstructionError''"]
  by (simp add: failing_stages)

section \<open>One build, one signature, one submission\<close>

lemma on_http_error_logs: "\<forall>ev \<in> set (on_http_error tokenMint r). is_log ev"
  by (simp add: on_http_error_def status_400_def Let_def split: error_data.splits)

lemma each_log_logs: "\<forall>ev \<in> set (fst (each_log entries)). is_log ev"
  by (induction entries rule: each_log.induct) (simp_all add: split_beta log_line_def)

lemma buy_catch_logs: "\<forall>ev \<in> set (fst (buy_catch tokenMint e)). is_log ev"
  using on_http_error_logs [of tokenMint] each_log_logs
  by (auto simp: buy_catch_def bonding_curve_diagnostic_def transaction_logs_def no_message_def
        split_beta split: js_thrown.splits option.splits js_message.splits if_splits)

lemma sell_catch_logs: "\<forall>ev \<in> set (fst (sell_catch tokenMint e)). is_log ev"
  using on_http_error_logs [of tokenMint]
  by (auto simp: sell_catch_def no_message_def split: js_thrown.splits option.splits)

lemma invalid_address_logs: "\<forall>ev \<in> set (fst (invalid_address tokenMint e)). is_log ev"
  by (simp add: invalid_address_def split: js_thrown.splits)

lemma shared_calls:
  "filter is_http_post (fst (sign_submit_confirm env wallet action data)) = [] \<and>
   length (filter is_sign (fst (sign_submit_confirm env wallet action data))) \<le> 1 \<and>
   (filter is_send (fst (sign_submit_confirm env wallet action data)) = [] \<or>
    (\<exists>raw. filter is_send (fst (sign_submit_confirm env wallet action data)) =
       [SendRawTransaction raw \<lparr>skipPreflight = False, maxRetries = 3\<rparr>]))"
  by (simp add: sign_submit_confirm_def send_opts_def Let_def split: sum.splits option.splits)

lemma response_calls:
  "filter is_http_post (fst (on_response env wallet action rd)) = [] \<and>
   length (filter is_sign (fst (on_response env wallet action rd))) \<le> 1 \<and>
   (filter is_send (fst (on_response env wallet action rd)) = [] \<or>
    (\<exists>raw. filter is_send (fst (on_response env wallet action rd)) =
       [SendRawTransaction raw \<lparr>skipPreflight = False, maxRetries = 3\<rparr>]))"
  using shared_calls [of env wallet action]
  by (simp add: on_response_def split: option.splits)

lemma buy_try_calls:
  "length (filter is_http_post (fst (buy_try env wallet tokenMint amount slippagePercent priorityFee))) \<le> 1 \<and>
   length (filter is_sign (fst (buy_try env wallet tokenMint amount slippagePercent priorityFee))) \<le> 1 \<and>
   (filter is_send (fst (buy_try env wallet tokenMint amount slippagePercent priorityFee)) = [] \<or>
    (\<exists>raw. filter is_send (fst (buy_try env wallet tokenMint amount slippagePercent priorityFee)) =
       [SendRawTransaction raw \<lparr>skipPreflight = False, maxRetries = 3\<rparr>]))"
  using response_calls [of env wallet "''BUY''"]
  by (simp add: buy_try_def Let_def split_beta only_logs_no_calls [OF invalid_address_logs]
        split: sum.splits)

lemma sell_try_calls:
  "length (filter is_http_post (fst (sell_try env wallet tokenMint amount slippagePercent priorityFee))) \<le> 1 \<and>
   length (filter is_sign (fst (sell_try env wallet tokenMint amount slippagePercent priorityFee))) \<le> 1 \<and>
   (filter is_send (fst (sell_try env wallet tokenMint amount slippagePercent priorityFee)) = [] \<or>
    (\<exists>raw. filter is_send (fst (sell_try env wallet tokenMint amount slippagePercent priorityFee)) =
       [SendRawTransaction raw \<lparr>skipPreflight = False, maxRetries = 3\<rparr>]))"
  using response_calls [of env wallet "''SELL''"]
  by (simp add: sell_try_def Let_def split_beta only_logs_no_calls [OF invalid_address_logs]
        split: sum.splits)

lemma buy_calls:
  "filter is_http_post (fst (buyViaPumpPortal env wallet tokenMint amount slippagePercent priorityFee)) =
     filter is_http_post (fst (buy_try env wallet tokenMint amount slippagePercent priorityFee))"
  "filter is_sign (fst (buyViaPumpPortal env wallet tokenMint amount slippagePercent priorityFee)) =
     filter is_sign (fst (buy_try env wallet tokenMint amount slippagePercent priorityFee))"
  "filter is_send (fst (buyViaPumpPortal env wallet tokenMint amount slippagePercent priorityFee)) =
     filter is_send (fst (buy_try env wallet tokenMint amount slippagePercent priorityFee))"
  by (simp_all add: buy_trace only_logs_no_calls [OF buy_catch_logs] split: sum.splits)

lemma sell_calls:
  "filter is_http_post (fst (sellViaPumpPortal env wallet tokenMint amount slippagePercent priorityFee)) =
     filter is_http_post (fst (sell_try env wallet tokenMint amount slippagePercent priorityFee))"
  "filter is_sign (fst (sellViaPumpPortal env wallet tokenMint amount slippagePercent priorityFee)) =
     filter is_sign (fst (sell_try env wallet tokenMint amount slippagePercent priorityFee))"
  "filter is_send (fst (sellViaPumpPortal env wallet tokenMint amount slippagePercent priorityFee)) =
     filter is_send (fst (sell_try env wallet tokenMint amount slippagePercent priorityFee))"
  by (simp_all add: sell_trace only_logs_no_calls [OF sell_catch_logs] split: sum.splits)

text \<open>
  Claim C9. In every invocation of buy or sell, whatever the collaborators do, at most
  one HTTP request is made to the remote builder (it is never retried), at most one
  signature is requested, and at most one submission is issued; a submission carries
  the options \<open>skipPreflight: false\<close> (preflight checks enabled) and \<open>maxRetries: 3\<close>,
  which leave the retries to the network client.
\<close>

theorem one_build_one_signature_one_submission:
  "length (filter is_http_post
     (fst (buyViaPumpPortal env wallet tokenMint amount slippagePercent priorityFee))) \<le> 1 \<and>
   length (filter is_sign
     (fst (buyViaPumpPortal env wallet tokenMint amount slippagePercent priorityFee))) \<le> 1 \<and>
   (filter is_send (fst (buyViaPumpPortal env wallet tokenMint amount slippagePercent priorityFee)) = [] \<or>
    (\<exists>raw. filter is_send
        (fst (buyViaPumpPortal env wallet tokenMint amount slippagePercent priorityFee)) =
       [SendRawTransaction raw \<lparr>skipPreflight = False, maxRetries = 3\<rparr>])) \<and>
   length (filter is_http_post
     (fst (sellViaPumpPortal env wallet tokenMint amount slippagePercent priorityFee))) \<le> 1 \<and>
   length (filter is_sign
     (fst (sellViaPumpPortal env wallet tokenMint amount slippagePercent priorityFee))) \<le> 1 \<and>
   (filter is_send (fst (sellViaPumpPortal env wallet tokenMint amount slippagePercent priorityFee)) = [] \<or>
    (\<exists>raw. filter is_send
        (fst (sellViaPumpPortal env wallet tokenMint amount slippagePercent priorityFee)) =
       [SendRawTransaction raw \<lparr>skipPreflight = False, maxRetries = 3\<rparr>]))"
  unfolding buy_calls sell_calls
  using buy_try_calls [of env wallet tokenMint amount slippagePercent priorityFee]
        sell_try_calls [of env wallet tokenMint amount slippagePercent priorityFee]
  by simp


theorem one_build_one_signature_one_submission_witness:
  "filter is_send (fst (buyViaPumpPortal calm_env a_wallet a_mint js_0_0123 js_5 js_5)) =
     [SendRawTransaction ''signed-bytes'' \<lparr>skipPreflight = False, maxRetries = 3\<rparr>] \<and>
   filter is_send (fst (sellViaPumpPortal calm_env a_wallet a_mint js_0_0123 js_5 js_5)) =
     [SendRawTransaction ''signed-bytes'' \<lparr>skipPreflight = False, maxRetries = 3\<rparr>] \<and>
   length (filter is_sign
     (fst (buyViaPumpPortal calm_env a_wallet a_mint js_0_0123 js_5 js_5))) \<le> 1"
proof -
  have b: "filter is_send (fst (buy_try calm_env a_wallet a_mint js_0_0123 js_5 js_5)) =
      [SendRawTransaction ''signed-bytes'' \<lparr>skipPreflight = False, maxRetries = 3\<rparr>]"
    by (simp add: buy_try_def on_response_def sign_submit_confirm_def calm_stages send_opts_def
          Let_def)
  have s: "filter is_send (fst (sell_try calm_env a_wallet a_mint js_0_0123 js_5 js_5)) =
      [SendRawTransaction ''signed-bytes'' \<lparr>skipPreflight = False, maxRetries = 3\<rparr>]"
    by (simp add: sell_try_def on_response_def sign_submit_confirm_def calm_stages send_opts_def
          Let_def)
  from one_build_one_signature_one_submission [of calm_env a_wallet a_mint js_0_0123 js_5 js_5]
  show ?thesis
    by (simp add: buy_calls sell_calls b s)
qed

section \<open>HTTP error responses\<close>

lemma starts_with_iff: "starts_with s p \<longleftrightarrow> (\<exists>w. s = p @ w)"
  by (induction s p rule: starts_with.induct) auto

lemma includes_str_iff: "includes_str s p \<longleftrightarrow> (\<exists>u w. s = u @ p @ w)"
proof (induction s)
  case Nil
  then show ?case by simp
next
  case (Cons c cs)
  show ?case
  proof
    assume "includes_str (c # cs) p"
    then consider "starts_with (c # cs) p" | "includes_str cs p" by auto
    then show "\<exists>u w. c # cs = u @ p @ w"
    proof cases
      case 1
      then obtain w where "c # cs = p @ w" by (auto simp: starts_with_iff)
      then have "c # cs = [] @ p @ w" by simp
      then show ?thesis by blast
    next
      case 2
      then obtain u w where "cs = u @ p @ w" using Cons.IH by auto
      then have "c # cs = (c # u) @ p @ w" by simp
      then show ?thesis by blast
    qed
  next
    assume "\<exists>u w. c # cs = u @ p @ w"
    then obtain u w where uw: "c # cs = u @ p @ w" by blast
    show "includes_str (c # cs) p"
    proof (cases u)
      case Nil
      with uw have "starts_with (c # cs) p" by (auto simp: starts_with_iff)
      then show ?thesis by simp
    next
      case (Cons a u')
      with uw have "cs = u' @ p @ w" by simp
      then have "includes_str cs p" using Cons.IH by blast
      then show ?thesis by simp
    qed
  qed
qed

lemma migrated_catch:
  assumes "err_response error = Some r" and "http_data r = DataText errorText"
    and "mentions_migration errorText"
  shows "buy_catch tokenMint (Thrown_object error) =
           ([Log Error (''PumpPortal API error: '' @ show_int (http_status r)),
             Log Error (''Error details: '' @ errorText),
             Log Warn (migrated_warning tokenMint)], Inr None)"
    and "sell_catch tokenMint (Thrown_object error) =
           ([Log Error (''PumpPortal API error: '' @ show_int (http_status r)),
             Log Error (''Error details: '' @ errorText),
             Log Warn (migrated_warning tokenMint)], Inr None)"
  using assms by (simp_all add: buy_catch_def sell_catch_def on_http_error_def)

lemma buy_http_error:
  assumes "newPublicKey env tokenMint = Inr v"
    and "axios_post env PUMP_PORTAL_API
           (buy_body env wallet amount slippagePercent priorityFee v) axios_config = Inl error"
  shows "buyViaPumpPortal (env :: 'tx env) wallet tokenMint amount slippagePercent priorityFee =
      ([Log Info (''Using PumpPortal API to buy '' @ number_toString (shortestDigits env) amount @
                  '' SOL worth of '' @ take 8 tokenMint @ ''...''),
        LogWith Debug ''PumpPortal API request:''
          (buy_requestData env wallet v amount slippagePercent priorityFee),
        HttpPost PUMP_PORTAL_API (buy_body env wallet amount slippagePercent priorityFee v)
          axios_config] @ fst (buy_catch tokenMint error :: 'tx outcome),
       snd (buy_catch tokenMint error :: 'tx outcome))"
  using assms by (simp add: buyViaPumpPortal_def buy_try_def buy_body_def Let_def split_beta)

lemma sell_http_error:
  assumes "newPublicKey env tokenMint = Inr v"
    and "axios_post env PUMP_PORTAL_API
           (sell_body env wallet amount slippagePercent priorityFee v) axios_config = Inl error"
  shows "sellViaPumpPortal (env :: 'tx env) wallet tokenMint amount slippagePercent priorityFee =
      ([Log Info (''Using PumpPortal API to sell '' @ number_toString (shortestDigits env) amount @
                  '' tokens of '' @ take 8 tokenMint @ ''...''),
        Log Debug (''PumpPortal API request: '' @ paramsToString env
          (sell_params env wallet v amount slippagePercent priorityFee)),
        HttpPost PUMP_PORTAL_API (sell_body env wallet amount slippagePercent priorityFee v)
          axios_config] @ fst (sell_catch tokenMint error :: 'tx outcome),
       snd (sell_catch tokenMint error :: 'tx outcome))"
  using assms by (simp add: sellViaPumpPortal_def sell_try_def sell_body_def Let_def split_beta)

text \<open>
  Claim C5. When the HTTP error response of the remote builder has a body whose text
  contains \<open>bonding curve\<close>, \<open>migrated\<close> or \<open>does not exist\<close>, buy and sell return
  \<open>null\<close>, and the classification (the message that the token has migrated or does
  not exist) is logged as the one warning of the run and is not logged at error level.
\<close>

theorem migration_text_is_warned:
  assumes "newPublicKey env tokenMint = Inr v"
    and "axios_post env PUMP_PORTAL_API
           (buy_body env wallet amount slippagePercent priorityFee v) axios_config =
           Inl (Thrown_object error)"
    and "axios_post env PUMP_PORTAL_API
           (sell_body env wallet amount slippagePercent priorityFee v) axios_config =
           Inl (Thrown_object error)"
    and "err_response error = Some r" and "http_data r = DataText errorText"
    and "includes_str errorText ''bonding curve'' \<or> includes_str errorText ''migrated'' \<or>
         includes_str errorText ''does not exist''"
  shows "snd (buyViaPumpPortal env wallet tokenMint amount slippagePercent priorityFee) = Inr None \<and>
         filter is_warning (fst (buyViaPumpPortal env wallet tokenMint amount slippagePercent priorityFee)) =
           [Log Warn (migrated_warning tokenMint)] \<and>
         Log Error (migrated_warning tokenMint) \<notin>
           set (fst (buyViaPumpPortal env wallet tokenMint amount slippagePercent priorityFee)) \<and>
         snd (sellViaPumpPortal env wallet tokenMint amount slippagePercent priorityFee) = Inr None \<and>
         filter is_warning (fst (sellViaPumpPortal env wallet tokenMint amount slippagePercent priorityFee)) =
           [Log Warn (migrated_warning tokenMint)] \<and>
         Log Error (migrated_warning tokenMint) \<notin>
           set (fst (sellViaPumpPortal env wallet tokenMint amount slippagePercent priorityFee))"
proof -
  have m: "mentions_migration errorText"
    using assms(6) by (simp add: mentions_migration_def)
  show ?thesis
    by (simp add: buy_http_error [OF assms(1,2)] sell_http_error [OF assms(1,3)]
          migrated_catch [OF assms(4,5) m] migrated_warning_def)
qed


lemma refusing_stages:
  "newPublicKey (refusing_env status body) a_mint = Inr a_mint"
  "axios_post (refusing_env status body) u b c = Inl (Thrown_object (http_failure status body))"
  by (simp_all add: refusing_env_def calm_env_def a_mint_def)

lemma http_failure_fields:
  "err_response (http_failure status body) =
     Some \<lparr>http_status = status, http_data = DataText body\<rparr>"
  by (simp add: http_failure_def)

theorem migration_text_is_warned_witness:
  "includes_str ''Token has migrated to Raydium'' ''migrated'' \<and>
   snd (buyViaPumpPortal (refusing_env 404 ''Token has migrated to Raydium'') a_wallet a_mint
     js_0_0123 js_5 js_5) = Inr None \<and>
   filter is_warning (fst (buyViaPumpPortal (refusing_env 404 ''Token has migrated to Raydium'')
     a_wallet a_mint js_0_0123 js_5 js_5)) =
     [Log Warn ''Token So111111... has migrated or does not exist on pump.fun bonding curve''] \<and>
   snd (sellViaPumpPortal (refusing_env 404 ''Token has migrated to Raydium'') a_wallet a_mint
     js_0_0123 js_5 js_5) = Inr None \<and>
   filter is_warning (fst (sellViaPumpPortal (refusing_env 404 ''Token has migrated to Raydium'')
     a_wallet a_mint js_0_0123 js_5 js_5)) =
     [Log Warn ''Token So111111... has migrated or does not exist on pump.fun bonding curve'']"
proof -
  have i: "includes_str ''Token has migrated to Raydium'' ''migrated''" by simp
  have w: "migrated_warning a_mint =
      ''Token So111111... has migrated or does not exist on pump.fun bonding curve''"
    by (simp add: migrated_warning_def a_mint_def)
  let ?body = "''Token has migrated to Raydium''"
  let ?env = "refusing_env 404 ?body"
  have h5: "http_data \<lparr>http_status = 404, http_data = DataText ?body\<rparr> = DataText ?body"
    by simp
  have h6: "includes_str ?body ''bonding curve'' \<or> includes_str ?body ''migrated'' \<or>
            includes_str ?body ''does not exist''"
    by simp
  from migration_text_is_warned [of ?env a_mint a_mint a_wallet js_0_0123 js_5 js_5,
      OF refusing_stages(1) refusing_stages(2) refusing_stages(2) http_failure_fields h5 h6] i w
  show ?thesis by simp
qed

lemma status_400_catch:
  assumes "err_response error = Some r" and "http_data r = DataText errorText"
    and "\<not> mentions_migration errorText" and "http_status r = 400"
  shows "buy_catch tokenMint (Thrown_object error) =
           ([Log Error ''PumpPortal API error: 400'',
             Log Error (''Error details: '' @ errorText),
             Log Warn (invalid_request_warning tokenMint)], Inr None)"
    and "sell_catch tokenMint (Thrown_object error) =
           ([Log Error ''PumpPortal API error: 400'',
             Log Error (''Error details: '' @ errorText),
             Log Warn (invalid_request_warning tokenMint)], Inr None)"
  using assms
  by (simp_all add: buy_catch_def sell_catch_def on_http_error_def status_400_def show_int_def
        show_nat.simps digit_char_def)

lemma status_400_is_warned:
  assumes "newPublicKey env tokenMint = Inr v"
    and "axios_post env PUMP_PORTAL_API
           (buy_body env wallet amount slippagePercent priorityFee v) axios_config =
           Inl (Thrown_object error)"
    and "axios_post env PUMP_PORTAL_API
           (sell_body env wallet amount slippagePercent priorityFee v) axios_config =
           Inl (Thrown_object error)"
    and "err_response error = Some r" and "http_data r = DataText errorText"
    and "\<not> mentions_migration errorText" and "http_status r = 400"
  shows "last (fst (buyViaPumpPortal env wallet tokenMint amount slippagePercent priorityFee)) =
           Log Warn (invalid_request_warning tokenMint) \<and>
         last (fst (sellViaPumpPortal env wallet tokenMint amount slippagePercent priorityFee)) =
           Log Warn (invalid_request_warning tokenMint)"
  by (simp add: buy_http_error [OF assms(1,2)] sell_http_error [OF assms(1,3)]
        status_400_catch [OF assms(4-7)])

text \<open>
  Claim C10. The text of the error body is read before the HTTP status: when the error
  response of the remote builder has a body whose text contains \<open>bonding curve\<close>,
  \<open>migrated\<close> or \<open>does not exist\<close>, buy and sell return \<open>null\<close> at once (the
  migration warning is the last thing logged) and the warning for status 400 is not
  emitted, whatever the status is, 400 included. Without such a text a status 400 does
  get its warning (\<open>status_400_is_warned\<close>).
\<close>

theorem body_text_precedes_status:
  assumes "newPublicKey env tokenMint = Inr v"
    and "axios_post env PUMP_PORTAL_API
           (buy_body env wallet amount slippagePercent priorityFee v) axios_config =
           Inl (Thrown_object error)"
    and "axios_post env PUMP_PORTAL_API
           (sell_body env wallet amount slippagePercent priorityFee v) axios_config =
           Inl (Thrown_object error)"
    and "err_response error = Some r" and "http_data r = DataText errorText"
    and "includes_str errorText ''bonding curve'' \<or> includes_str errorText ''migrated'' \<or>
         includes_str errorText ''does not exist''"
  shows "snd (buyViaPumpPortal env wallet tokenMint amount slippagePercent priorityFee) = Inr None \<and>
         last (fst (buyViaPumpPortal env wallet tokenMint amount slippagePercent priorityFee)) =
           Log Warn (migrated_warning tokenMint) \<and>
         Log Warn (invalid_request_warning tokenMint) \<notin>
           set (fst (buyViaPumpPortal env wallet tokenMint amount slippagePercent priorityFee)) \<and>
         snd (sellViaPumpPortal env wallet tokenMint amount slippagePercent priorityFee) = Inr None \<and>
         last (fst (sellViaPumpPortal env wallet tokenMint amount slippagePercent priorityFee)) =
           Log Warn (migrated_warning tokenMint) \<and>
         Log Warn (invalid_request_warning tokenMint) \<notin>
           set (fst (sellViaPumpPortal env wallet tokenMint amount slippagePercent priorityFee))"
proof -
  have m: "mentions_migration errorText"
    using assms(6) by (simp add: mentions_migration_def)
  have d: "migrated_warning tokenMint \<noteq> invalid_request_warning tokenMint"
    by (simp add: migrated_warning_def invalid_request_warning_def)
  show ?thesis
    using d
    by (simp add: buy_http_error [OF assms(1,2)] sell_http_error [OF assms(1,3)]
          migrated_catch [OF assms(4,5) m])
qed

theorem body_text_precedes_status_witness:
  "err_response (http_failure 400 ''bonding curve not found'') =
     Some \<lparr>http_status = 400, http_data = DataText ''bonding curve not found''\<rparr> \<and>
   includes_str ''bonding curve not found'' ''bonding curve'' \<and>
   last (fst (buyViaPumpPortal (refusing_env 400 ''bonding curve not found'') a_wallet a_mint
     js_0_0123 js_5 js_5)) =
     Log Warn ''Token So111111... has migrated or does not exist on pump.fun bonding curve'' \<and>
   Log Warn ''Invalid token or request parameters for So111111...'' \<notin>
     set (fst (buyViaPumpPortal (refusing_env 400 ''bonding curve not found'') a_wallet a_mint
       js_0_0123 js_5 js_5)) \<and>
   last (fst (sellViaPumpPortal (refusing_env 400 ''bonding curve not found'') a_wallet a_mint
     js_0_0123 js_5 js_5)) =
     Log Warn ''Token So111111... has migrated or does not exist on pump.fun bonding curve'' \<and>
   Log Warn ''Invalid token or request parameters for So111111...'' \<notin>
     set (fst (sellViaPumpPortal (refusing_env 400 ''bonding curve not found'') a_wallet a_mint
       js_0_0123 js_5 js_5))"
proof -
  have i: "includes_str ''bonding curve not found'' ''bonding curve''" by simp
  have w: "migrated_warning a_mint =
      ''Token So111111... has migrated or does not exist on pump.fun bonding curve''"
    "invalid_request_warning a_mint = ''Invalid token or request parameters for So111111...''"
    by (simp_all add: migrated_warning_def invalid_request_warning_def a_mint_def)
  let ?body = "''bonding curve not found''"
  let ?env = "refusing_env 400 ?body"
  have h5: "http_data \<lparr>http_status = 400, http_data = DataText ?body\<rparr> = DataText ?body"
    by simp
  have h6: "includes_str ?body ''bonding curve'' \<or> includes_str ?body ''migrated'' \<or>
            includes_str ?body ''does not exist''"
    by simp
  from body_text_precedes_status [of ?env a_mint a_mint a_wallet js_0_0123 js_5 js_5,
      OF refusing_stages(1) refusing_stages(2) refusing_stages(2) http_failure_fields h5 h6]
    i w
  show ?thesis by (simp add: http_failure_fields)
qed

section \<open>The bonding-curve diagnostic of buy\<close>

lemma rejecting_stages:
  "newPublicKey (rejecting_env m logs) a_mint = Inr a_mint"
  "axios_post (rejecting_env m logs) u body c = Inr (Some ''tx-bytes'')"
  "deserializeTx (rejecting_env m logs) d = Inr 0"
  "signTx (rejecting_env m logs) 0 w = Inr (Suc 0)"
  "serializeTx (rejecting_env m logs) t = Inr ''signed-bytes''"
  "sendRawTransaction (rejecting_env m logs) r opts =
     Inl (Thrown_object (simulation_error m logs))"
  "shortestDigits (rejecting_env m logs) x = ''0.0123''"
  by (simp_all add: rejecting_env_def calm_env_def a_mint_def)

lemma show_0_0123: "number_toString sh js_0_0123 = sh js_0_0123"
  by (simp add: number_toString_def js_0_0123_def)

lemma take_a_mint: "take 8 a_mint = ''So111111''"
  by (simp add: a_mint_def)

lemma show_digit: "n < 10 \<Longrightarrow> show_nat n = [digit_char n]"
  by (simp add: show_nat.simps)


lemma rejecting_buy_try:
  "buy_try (rejecting_env m logs) a_wallet a_mint js_0_0123 js_5 js_5 =
     ([Log Info ''Using PumpPortal API to buy 0.0123 SOL worth of So111111...'',
       LogWith Debug ''PumpPortal API request:''
         (buy_requestData (rejecting_env m logs) a_wallet a_mint js_0_0123 js_5 js_5),
       HttpPost PUMP_PORTAL_API
         (ObjectBody (buy_requestData (rejecting_env m logs) a_wallet a_mint js_0_0123 js_5 js_5))
         axios_config,
       Log Info ''Received transaction from PumpPortal API (8 bytes)'',
       Deserialize ''tx-bytes'',
       SignTx 0 a_wallet,
       Log Info ''Sending PumpPortal transaction...'',
       SendRawTransaction ''signed-bytes'' send_opts],
      Inl (Thrown_object (simulation_error m logs)))"
  by (simp add: buy_try_def on_response_def sign_submit_confirm_def rejecting_stages Let_def
        show_0_0123 show_digit digit_char_def take_a_mint)

text \<open>
  Claim C4, as amended. The expanded diagnostic follows the message of the error, not
  its log lines. For every buy invocation whose \<open>try\<close> block throws an error without
  an HTTP response and with a non-empty message \<open>m\<close> (a string, as are its log lines
  when it has some), the operation returns \<open>null\<close> and logs, after the message: the
  expanded bonding-curve diagnostic (with its three possible causes) exactly when \<open>m\<close>
  contains \<open>NotEnoughTokensToBuy\<close> or \<open>Not enough tokens\<close>; then, when the error
  carries an array of log lines, each line that contains one of these two texts, and
  also each line that contains \<open>Left:\<close> or \<open>Right:\<close>, at error level, and every other
  line at debug level.
\<close>

theorem exhaustion_diagnostic_follows_message:
  assumes "buy_try env wallet tokenMint amount slippagePercent priorityFee =
             (t, Inl (Thrown_object error))"
    and "err_response error = None"
    and "err_message error = String_message m"
    and "m \<noteq> []"
    and "err_logs error = map_option (map Line) logs"
  shows "buyViaPumpPortal env wallet tokenMint amount slippagePercent priorityFee =
     (t @ Log Error (''PumpPortal buy error: '' @ m) #
        (if includes_str m ''NotEnoughTokensToBuy'' \<or> includes_str m ''Not enough tokens''
         then bonding_curve_diagnostic tokenMint else []) @
        (case logs of
           None \<Rightarrow> []
         | Some lines \<Rightarrow>
             Log Error ''Transaction Logs:'' #
             map (\<lambda>l. if includes_str l ''NotEnoughTokensToBuy'' \<or>
                         includes_str l ''Not enough tokens'' \<or>
                         includes_str l ''Left:'' \<or> includes_str l ''Right:''
                      then Log Error (''  '' @ l) else Log Debug (''  '' @ l)) lines),
      Inr None)"
proof -
  have l: "log_line = (\<lambda>l. if includes_str l ''NotEnoughTokensToBuy'' \<or>
                         includes_str l ''Not enough tokens'' \<or>
                         includes_str l ''Left:'' \<or> includes_str l ''Right:''
                      then Log Error (''  '' @ l) else Log Debug (''  '' @ l))"
    by (rule ext) (simp add: log_line_def mentions_exhaustion_def)
  have e: "each_log (map Line lines) = (map log_line lines, Inr None)" for lines
    by (induction lines) simp_all
  show ?thesis
    using assms
    by (simp add: buyViaPumpPortal_def buy_catch_def truthy_message_def mentions_exhaustion_def
          transaction_logs_def e l split: option.splits)
qed

lemma simulation_error_fields:
  "err_response (simulation_error m logs) = None"
  "err_message (simulation_error m logs) = String_message m"
  "err_logs (simulation_error m logs) = map_option (map Line) (Some logs)"
  by (simp_all add: simulation_error_def)

theorem exhaustion_diagnostic_follows_message_witness:
  "snd (buyViaPumpPortal
     (rejecting_env ''custom program error: NotEnoughTokensToBuy''
        [''Program log: Not enough tokens'', ''Program log: Left: 5'', ''Program log: done''])
     a_wallet a_mint js_0_0123 js_5 js_5) = Inr None \<and>
   drop 8 (fst (buyViaPumpPortal
     (rejecting_env ''custom program error: NotEnoughTokensToBuy''
        [''Program log: Not enough tokens'', ''Program log: Left: 5'', ''Program log: done''])
     a_wallet a_mint js_0_0123 js_5 js_5)) =
     [Log Error ''PumpPortal buy error: custom program error: NotEnoughTokensToBuy'',
      Log Error ''BONDING CURVE ERROR'',
      Log Error ''Token So111111... bonding curve has insufficient tokens'',
      Log Error ''Possible reasons:'',
      Log Error ''  1. Token bonding curve is almost empty (most tokens sold)'',
      Log Error ''  2. Token has migrated/launched (bonding curve completed)'',
      Log Error ''  3. Amount requested is too large for available tokens'',
      Log Error ''Transaction Logs:'',
      Log Error ''  Program log: Not enough tokens'',
      Log Error ''  Program log: Left: 5'',
      Log Debug ''  Program log: done'']"
proof -
  let ?m = "''custom program error: NotEnoughTokensToBuy''"
  let ?logs = "[''Program log: Not enough tokens'', ''Program log: Left: 5'',
                ''Program log: done'']"
  have ne: "?m \<noteq> []" by simp
  from exhaustion_diagnostic_follows_message [OF rejecting_buy_try [of ?m ?logs]
      simulation_error_fields(1) simulation_error_fields(2) ne simulation_error_fields(3)]
  show ?thesis
    by (simp add: bonding_curve_diagnostic_def take_a_mint)
qed

text \<open>
  The claim as first stated, with the log lines as the trigger, fails. The submission
  throws an error whose message is \<open>Transaction simulation failed\<close> and whose log
  lines are \<open>Program log: Error: NotEnoughTokensToBuy\<close> and \<open>Program log: Left: 5\<close>:
  the handler logs the message and the two lines, no diagnostic, and the second line,
  which contains neither text, goes to error level and not to debug level.
\<close>

theorem log_lines_do_not_expand_diagnostic:
  "sendRawTransaction
     (rejecting_env ''Transaction simulation failed''
        [''Program log: Error: NotEnoughTokensToBuy'', ''Program log: Left: 5''])
     ''signed-bytes'' send_opts =
     Inl (Thrown_object (simulation_error ''Transaction simulation failed''
        [''Program log: Error: NotEnoughTokensToBuy'', ''Program log: Left: 5''])) \<and>
   err_logs (simulation_error ''Transaction simulation failed''
        [''Program log: Error: NotEnoughTokensToBuy'', ''Program log: Left: 5'']) =
     Some [Line ''Program log: Error: NotEnoughTokensToBuy'', Line ''Program log: Left: 5''] \<and>
   includes_str ''Program log: Error: NotEnoughTokensToBuy'' ''NotEnoughTokensToBuy'' \<and>
   snd (buyViaPumpPortal
     (rejecting_env ''Transaction simulation failed''
        [''Program log: Error: NotEnoughTokensToBuy'', ''Program log: Left: 5''])
     a_wallet a_mint js_0_0123 js_5 js_5) = Inr None \<and>
   drop 8 (fst (buyViaPumpPortal
     (rejecting_env ''Transaction simulation failed''
        [''Program log: Error: NotEnoughTokensToBuy'', ''Program log: Left: 5''])
     a_wallet a_mint js_0_0123 js_5 js_5)) =
     [Log Error ''PumpPortal buy error: Transaction simulation failed'',
      Log Error ''Transaction Logs:'',
      Log Error ''  Program log: Error: NotEnoughTokensToBuy'',
      Log Error ''  Program log: Left: 5''] \<and>
   Log Error ''Possible reasons:'' \<notin> set (fst (buyViaPumpPortal
     (rejecting_env ''Transaction simulation failed''
        [''Program log: Error: NotEnoughTokensToBuy'', ''Program log: Left: 5''])
     a_wallet a_mint js_0_0123 js_5 js_5)) \<and>
   \<not> includes_str ''Program log: Left: 5'' ''NotEnoughTokensToBuy'' \<and>
   \<not> includes_str ''Program log: Left: 5'' ''Not enough tokens'' \<and>
   Log Debug ''  Program log: Left: 5'' \<notin> set (fst (buyViaPumpPortal
     (rejecting_env ''Transaction simulation failed''
        [''Program log: Error: NotEnoughTokensToBuy'', ''Program log: Left: 5''])
     a_wallet a_mint js_0_0123 js_5 js_5))"
proof -
  let ?m = "''Transaction simulation failed''"
  let ?logs = "[''Program log: Error: NotEnoughTokensToBuy'', ''Program log: Left: 5'']"
  have run: "buyViaPumpPortal (rejecting_env ?m ?logs) a_wallet a_mint js_0_0123 js_5 js_5 =
     (fst (buy_try (rejecting_env ?m ?logs) a_wallet a_mint js_0_0123 js_5 js_5) @
      [Log Error ''PumpPortal buy error: Transaction simulation failed'',
       Log Error ''Transaction Logs:'',
       Log Error ''  Program log: Error: NotEnoughTokensToBuy'',
       Log Error ''  Program log: Left: 5''], Inr None)"
    by (simp add: buyViaPumpPortal_def rejecting_buy_try buy_catch_def simulation_error_def
          truthy_message_def mentions_exhaustion_def transaction_logs_def log_line_def)
  show ?thesis
    unfolding run
    by (simp add: rejecting_buy_try rejecting_stages simulation_error_def)
qed

section \<open>The amount of a buy request\<close>










section \<open>Checks of the number model\<close>

lemma js_floor_is_floor:
  assumes "e < 0" and "js_floor (Finite m e) = Finite n e'"
  shows "e' = 0 \<and> n * 2 ^ nat (- e) \<le> m \<and> m < (n + 1) * 2 ^ nat (- e)"
proof -
  define d :: int where "d = 2 ^ nat (- e)"
  have n: "n = m div d" and e': "e' = 0"
    using assms by (simp_all add: d_def)
  have p: "0 < d" by (simp add: d_def)
  have eq: "m = m div d * d + m mod d" by simp
  have r: "0 \<le> m mod d" "m mod d < d" using p by simp_all
  have lo: "m div d * d \<le> m" using eq r(1) by linarith
  have "(m div d + 1) * d = m div d * d + d" by (simp add: algebra_simps)
  then have hi: "m < (m div d + 1) * d" using eq r(2) by linarith
  from lo hi have "m div d * d \<le> m \<and> m < (m div d + 1) * d" by simp
  then show ?thesis using n e' by (simp add: d_def)
qed

lemma round_half_even_close:
  "2 * \<bar>int (round_half_even a k) * 2 ^ k - int a\<bar> \<le> 2 ^ k"
proof -
  define q where "q = a div 2 ^ k"
  define r where "r = a mod 2 ^ k"
  have a: "int a = int q * 2 ^ k + int r"
    unfolding q_def r_def by (metis of_nat_add of_nat_mult of_nat_power of_nat_numeral
        div_mult_mod_eq)
  have r: "int r < 2 ^ k"
    unfolding r_def by (metis mod_less_divisor of_nat_less_iff of_nat_power of_nat_numeral
        zero_less_numeral zero_less_power)
  show ?thesis
  proof (cases "2 ^ k < 2 * r \<or> (2 * r = 2 ^ k \<and> odd q)")
    case True
    then have "round_half_even a k = q + 1"
      by (simp add: round_half_even_def q_def r_def Let_def)
    moreover from True have "2 ^ k \<le> 2 * int r"
      by (metis less_imp_le_nat of_nat_le_iff of_nat_mult of_nat_numeral of_nat_power
          order_refl)
    ultimately show ?thesis using a r by (simp add: algebra_simps)
  next
    case False
    then have "round_half_even a k = q"
      by (simp add: round_half_even_def q_def r_def Let_def)
    moreover from False have "2 * int r \<le> 2 ^ k"
      by (metis linorder_not_less of_nat_le_iff of_nat_mult of_nat_numeral of_nat_power)
    ultimately show ?thesis using a by (simp add: algebra_simps)
  qed
qed

lemma js_0_0123_is_nearest:
  "js_0_0123 = Finite 7090467253332109 (- 59) \<and>
   (2::int) ^ 52 \<le> 7090467253332109 \<and> (7090467253332109::int) < 2 ^ 53 \<and>
   2 * \<bar>(7090467253332109::int) * 10000 - 123 * 2 ^ 59\<bar> \<le> 10000"
  by (simp add: js_0_0123_def)

lemma product_is_rounded_before_floor:
  "js_floor (js_mul (Finite 5404319552844595 (- 54)) js_1e9) = Finite 300000000 0 \<and>
   (5404319552844595 * 10 ^ 9) div 2 ^ 54 = (299999999 :: int)"
proof -
  have b: "bit_length 5404319552844595000000000 = 83"
    by (simp add: bit_length.simps)
  show ?thesis
    by (simp add: js_1e9_def to_double_def round_half_even_def b Let_def)
qed

section \<open>Other ways out of the catch blocks\<close>

text \<open>
  The other statements of the \<open>catch\<close> blocks that can throw, each on a thrown object
  that no library called here produces: a truthy message that is not a string and a
  log entry that is not a string (buy only), and a value without \<open>toString\<close>.
\<close>

lemma message_without_includes_escapes:
  assumes "err_response error = None" and "err_message error = Other_message True shown"
  shows "buy_catch tokenMint (Thrown_object error) =
           ([Log Error (''PumpPortal buy error: '' @ shown)],
            Inl (type_error ''error.message.includes is not a function''))"
    and "sell_catch tokenMint (Thrown_object error) =
           ([Log Error (''PumpPortal sell error: '' @ shown)], Inr None)"
  using assms
  by (simp_all add: buy_catch_def sell_catch_def truthy_message_def message_text_def)

lemma log_entry_without_includes_escapes:
  assumes "err_response error = None" and "err_message error = String_message m"
    and "m \<noteq> []" and "\<not> mentions_exhaustion m"
    and "err_logs error = Some (map Line lines @ NoLine # rest)"
  shows "(buy_catch tokenMint (Thrown_object error) :: 'tx outcome) =
           (Log Error (''PumpPortal buy error: '' @ m) # Log Error ''Transaction Logs:'' #
              map log_line lines,
            Inl (type_error ''log.includes is not a function''))"
proof -
  have "(each_log (map Line lines @ NoLine # rest) :: 'tx outcome) =
          (map log_line lines, Inl (type_error ''log.includes is not a function''))"
    by (induction lines) simp_all
  then show ?thesis
    using assms by (simp add: buy_catch_def truthy_message_def transaction_logs_def)
qed

lemma value_without_toString_escapes:
  assumes "err_response error = None" and "err_message error = No_message"
    and "err_toString error = None"
  shows "snd (buy_catch tokenMint (Thrown_object error)) =
           Inl (type_error ''error.toString is not a function'')"
    and "snd (sell_catch tokenMint (Thrown_object error)) =
           Inl (type_error ''error.toString is not a function'')"
  using assms
  by (simp_all add: buy_catch_def sell_catch_def truthy_message_def no_message_def)

end
